theory Spec2Isabelle
  imports Main "HOL-Library.Word"
begin

section \<open>Python values used by the backend\<close>

text \<open>
  A Python \<^verbatim>\<open>str\<close> is a sequence of Unicode code points; a code point is a natural
  number here, so that every text the upstream model can answer with is a value of the
  model. \<open>ustr\<close> reads an ASCII literal as such a sequence. \<^verbatim>\<open>bytes\<close> are lists of
  octets.
\<close>

type_synonym str = "nat list"

type_synonym bytes = "8 word list"

definition ustr :: "string \<Rightarrow> str" where
  "ustr s = map of_char s"

text \<open>
  \<^verbatim>\<open>str.isspace\<close> on one code point, the set \<^verbatim>\<open>str.strip()\<close> removes: the characters
  of bidirectional type WS, B or S and of category Zs.
\<close>

definition isspace :: "nat \<Rightarrow> bool" where
  "isspace c \<longleftrightarrow>
     (9 \<le> c \<and> c \<le> 13) \<or> (28 \<le> c \<and> c \<le> 32) \<or> c = 133 \<or> c = 160 \<or> c = 5760 \<or>
     (8192 \<le> c \<and> c \<le> 8202) \<or> c = 8232 \<or> c = 8233 \<or> c = 8239 \<or> c = 8287 \<or> c = 12288"

definition str_lstrip :: "str \<Rightarrow> str" where
  "str_lstrip s = dropWhile isspace s"

definition str_rstrip :: "str \<Rightarrow> str" where
  "str_rstrip s = rev (dropWhile isspace (rev s))"

definition str_strip :: "str \<Rightarrow> str" where
  "str_strip s = str_rstrip (str_lstrip s)"

definition str_startswith :: "str \<Rightarrow> str \<Rightarrow> bool" where
  "str_startswith s p \<longleftrightarrow> take (length p) s = p"

text \<open>
  \<^verbatim>\<open>s.split(sep)\<close> for a separator of one character (the source splits at
  \<^verbatim>\<open>"\n"\<close>): the result is never empty, and a separator at the end leaves a last
  empty field.
\<close>

fun str_split :: "nat \<Rightarrow> str \<Rightarrow> str list" where
  "str_split sep [] = [[]]"
| "str_split sep (c # cs) =
     (if c = sep then [] # str_split sep cs
      else (case str_split sep cs of
              [] \<Rightarrow> [[c]]
            | l # ls \<Rightarrow> (c # l) # ls))"

text \<open>\<^verbatim>\<open>sep.join(xs)\<close>.\<close>

fun str_join :: "str \<Rightarrow> str list \<Rightarrow> str" where
  "str_join sep [] = []"
| "str_join sep [x] = x"
| "str_join sep (x # y # ys) = x @ sep @ str_join sep (y # ys)"

text \<open>
  \<^verbatim>\<open>xs[i:j]\<close>: a negative bound counts from the end, and both bounds are clamped
  to the list, so a slice never raises.
\<close>

definition py_slice :: "'a list \<Rightarrow> int \<Rightarrow> int \<Rightarrow> 'a list" where
  "py_slice xs i j =
     (let n = int (length xs);
          lo = (if i < 0 then max (n + i) 0 else min i n);
          hi = (if j < 0 then max (n + j) 0 else min j n)
      in drop (nat lo) (take (nat hi) xs))"

text \<open>
  Exceptions: the class decides which \<^verbatim>\<open>except\<close> clause takes one, the message is
  what \<^verbatim>\<open>str(e)\<close> and an f-string print. \<open>JSONDecodeError\<close> is a subclass of
  \<open>ValueError\<close>, and \<open>RecursionError\<close> one of \<open>RuntimeError\<close>. \<open>ValueError\<close> stands
  for that class and its other subclasses, \<open>OtherException\<close> for every other subclass of
  \<^verbatim>\<open>Exception\<close> not named here, and \<open>BaseExceptionOnly\<close> for the classes outside
  \<^verbatim>\<open>Exception\<close> (\<^verbatim>\<open>asyncio.CancelledError\<close>, \<^verbatim>\<open>KeyboardInterrupt\<close>, \<^verbatim>\<open>SystemExit\<close>),
  which \<^verbatim>\<open>except Exception\<close> does not take.
\<close>

datatype exc_class =
  ValueError | JSONDecodeError | RuntimeError | RecursionError | AttributeError | OtherException
| BaseExceptionOnly

datatype pyexn = Exn (exc_class_of: exc_class) (message: str)

definition isinstance_JSONDecodeError :: "pyexn \<Rightarrow> bool" where
  "isinstance_JSONDecodeError e \<longleftrightarrow> exc_class_of e = JSONDecodeError"

definition isinstance_ValueError :: "pyexn \<Rightarrow> bool" where
  "isinstance_ValueError e \<longleftrightarrow> exc_class_of e = ValueError \<or> exc_class_of e = JSONDecodeError"

definition isinstance_Exception :: "pyexn \<Rightarrow> bool" where
  "isinstance_Exception e \<longleftrightarrow> exc_class_of e \<noteq> BaseExceptionOnly"

section \<open>app/core/config.py\<close>

record Settings =
  gemini_api_key :: str
  app_name :: str
  debug :: bool
  port :: int

definition Settings_defaults :: Settings where
  "Settings_defaults =
     \<lparr>gemini_api_key = [], app_name = ustr ''Divvit Backend'', debug = False, port = 8080\<rparr>"

text \<open>
  \<^verbatim>\<open>Settings()\<close>. pydantic-settings is not part of the repository: what it finds for a
  field name (variable names compared without case, the process environment before the
  \<^verbatim>\<open>.env\<close> file) is the map \<open>src\<close>, and its conversions of a text to \<^verbatim>\<open>bool\<close> and
  \<^verbatim>\<open>int\<close> are \<open>as_bool\<close> and \<open>as_int\<close>, \<open>None\<close> where they refuse the text and
  the constructor raises a validation error (the result \<open>None\<close> here). Only the four
  declared fields are looked up (\<^verbatim>\<open>extra = "ignore"\<close>).
\<close>

definition Settings_init ::
  "(str \<Rightarrow> bool option) \<Rightarrow> (str \<Rightarrow> int option) \<Rightarrow> (str \<rightharpoonup> str) \<Rightarrow> Settings option" where
  "Settings_init as_bool as_int src =
     (let k = (case src (ustr ''gemini_api_key'') of
                 None \<Rightarrow> gemini_api_key Settings_defaults | Some v \<Rightarrow> v);
          a = (case src (ustr ''app_name'') of
                 None \<Rightarrow> app_name Settings_defaults | Some v \<Rightarrow> v)
      in case (case src (ustr ''debug'') of
                 None \<Rightarrow> Some (debug Settings_defaults) | Some v \<Rightarrow> as_bool v) of
           None \<Rightarrow> None
         | Some d \<Rightarrow>
             (case (case src (ustr ''port'') of
                      None \<Rightarrow> Some (port Settings_defaults) | Some v \<Rightarrow> as_int v) of
                None \<Rightarrow> None
              | Some p \<Rightarrow> Some \<lparr>gemini_api_key = k, app_name = a, debug = d, port = p\<rparr>))"

text \<open>
  \<^verbatim>\<open>@lru_cache def get_settings()\<close>: the cache of the function without arguments holds
  at most one entry, the state passed through here. A call that raises stores nothing.
\<close>

definition get_settings ::
  "(str \<Rightarrow> bool option) \<Rightarrow> (str \<Rightarrow> int option) \<Rightarrow> (str \<rightharpoonup> str) \<Rightarrow> Settings option
     \<Rightarrow> Settings option \<times> Settings option" where
  "get_settings as_bool as_int src cache =
     (case cache of
        Some s \<Rightarrow> (Some s, Some s)
      | None \<Rightarrow>
          (case Settings_init as_bool as_int src of
             None \<Rightarrow> (None, None)
           | Some s \<Rightarrow> (Some s, Some s)))"

section \<open>app/services/gemini.py\<close>

text \<open>
  The state of the process a request can see: the module-level \<^verbatim>\<open>settings\<close> (the value
  \<open>get_settings\<close> gave at import) and \<^verbatim>\<open>os.environ\<close>.
\<close>

record process =
  settings :: Settings
  os_environ :: "str \<rightharpoonup> str"

text \<open>
  What the runtime chooses anew for every call of \<open>parse_receipt\<close>: the identity (in
  CPython the address) of the \<^verbatim>\<open>io.BytesIO\<close> object the call makes, which the repr of the
  object prints.
\<close>

record call =
  bytesio_id :: nat

text \<open>
  The libraries the service calls are outside the repository and are parameters:
  \<^item> \<open>pil_verify\<close>: \<^verbatim>\<open>Image.open(io.BytesIO(image_data))\<close> followed by
    \<^verbatim>\<open>image.verify()\<close>, given the identity of the \<^verbatim>\<open>BytesIO\<close> object and the bytes;
    \<open>Some e\<close> when either raises \<open>e\<close>;
  \<^item> \<open>genai_Client\<close>: the constructor \<^verbatim>\<open>genai.Client(api_key=...)\<close>; \<open>Some e\<close> when it
    raises \<open>e\<close>. A client is identified by the key it was built with;
  \<^item> \<open>generate_content\<close>: \<^verbatim>\<open>client.models.generate_content\<close> with the model name, the
    prompt, the image bytes and their MIME type, then \<^verbatim>\<open>response.text\<close>, which is a
    \<^verbatim>\<open>str\<close> or \<^verbatim>\<open>None\<close>; \<open>Inl e\<close> when the call raises \<open>e\<close>;
  \<^item> \<open>json_loads\<close>: \<^verbatim>\<open>json.loads\<close>; \<open>Inl e\<close> when it raises \<open>e\<close>, a
    \<^verbatim>\<open>JSONDecodeError\<close> or another exception (a \<^verbatim>\<open>RecursionError\<close> on deep nesting, a
    \<^verbatim>\<open>ValueError\<close> on an integer with too many digits). The type \<open>'j\<close> is that of the
    Python objects it returns.
\<close>

record 'j world =
  pil_verify :: "nat \<Rightarrow> bytes \<Rightarrow> pyexn option"
  genai_Client :: "str \<Rightarrow> pyexn option"
  generate_content :: "str \<Rightarrow> str \<Rightarrow> str \<Rightarrow> bytes \<Rightarrow> str \<Rightarrow> pyexn + str option"
  json_loads :: "str \<Rightarrow> pyexn + 'j"

text \<open>What a request does to the outside, in order.\<close>

datatype event =
  ReadUpload
| ClientInit str
| GenerateContent str str str bytes str

record GeminiService =
  client :: str
  model_name :: str

definition api_key_of :: "process \<Rightarrow> str" where
  \<comment> \<open>\<^verbatim>\<open>settings.gemini_api_key or os.environ.get("GEMINI_API_KEY", "")\<close>\<close>
  "api_key_of p =
     (if gemini_api_key (settings p) \<noteq> [] then gemini_api_key (settings p)
      else (case os_environ p (ustr ''GEMINI_API_KEY'') of None \<Rightarrow> [] | Some v \<Rightarrow> v))"

definition GeminiService_init :: "'j world \<Rightarrow> process \<Rightarrow> (pyexn + GeminiService) \<times> event list" where
  "GeminiService_init w p =
     (let api_key = api_key_of p
      in case genai_Client w api_key of
           Some e \<Rightarrow> (Inl e, [ClientInit api_key])
         | None \<Rightarrow>
             (Inr \<lparr>client = api_key, model_name = ustr ''gemini-2.5-flash''\<rparr>,
              [ClientInit api_key]))"

definition prompt :: str where
  "prompt = ustr (concat
     [''Extract items (name, price), tax, tip, and total from this receipt.\<newline>'',
      ''\<newline>'',
      ''Return ONLY valid JSON in this exact format:\<newline>'',
      ''{\<newline>'',
      ''    \"items\": [\<newline>'',
      ''        {\"name\": \"item name\", \"price\": 0.00, \"quantity\": 1}\<newline>'',
      ''    ],\<newline>'',
      ''    \"subtotal\": 0.00,\<newline>'',
      ''    \"tax\": 0.00,\<newline>'',
      ''    \"total\": 0.00,\<newline>'',
      ''    \"scanned_tip\": 0.00\<newline>'',
      ''}\<newline>'',
      ''\<newline>'',
      ''Rules:\<newline>'',
      ''- Return ONLY the raw JSON object, no markdown formatting or code blocks\<newline>'',
      ''- Prices should be numbers (floats), not strings\<newline>'',
      ''- If a value is not found, use null\<newline>'',
      ''- Include all line items from the receipt\<newline>'',
      ''- Be accurate with the prices and names\<newline>''])"

text \<open>
  Lines 87 to 93: the text handed to \<^verbatim>\<open>json.loads\<close>. \<open>10\<close> is the line feed.
\<close>

definition strip_fences :: "str \<Rightarrow> str" where
  "strip_fences text =
     (let response_text = str_strip text
      in if str_startswith response_text (ustr ''```'')
         then (let lines = str_split 10 response_text
               in str_join [10] (py_slice lines 1 (- 1)))
         else response_text)"

text \<open>
  The \<^verbatim>\<open>except\<close> clause of the first \<^verbatim>\<open>try\<close>, and the two of the second in the
  source's order: what leaves the block when \<open>e\<close> is raised inside it. An exception
  that no clause takes leaves it as it is.
\<close>

definition except_invalid_image :: "pyexn \<Rightarrow> pyexn" where
  "except_invalid_image e =
     (if isinstance_Exception e
      then Exn ValueError (ustr ''Invalid image file: '' @ message e)
      else e)"

definition except_clauses :: "pyexn \<Rightarrow> pyexn" where
  "except_clauses e =
     (if isinstance_JSONDecodeError e
      then Exn ValueError (ustr ''Failed to parse Gemini response as JSON: '' @ message e)
      else if isinstance_Exception e
      then Exn RuntimeError (ustr ''Gemini API error: '' @ message e)
      else e)"

definition NoneType_strip :: pyexn where
  \<comment> \<open>\<^verbatim>\<open>None.strip()\<close>\<close>
  "NoneType_strip =
     Exn AttributeError
       (ustr ([CHR 0x27] @ ''NoneType'' @ [CHR 0x27] @ '' object has no attribute ''
              @ [CHR 0x27] @ ''strip'' @ [CHR 0x27]))"

definition parse_receipt ::
  "'j world \<Rightarrow> GeminiService \<Rightarrow> call \<Rightarrow> bytes \<Rightarrow> str \<Rightarrow> (pyexn + 'j) \<times> event list" where
  "parse_receipt w self c image_data content_type =
     (case pil_verify w (bytesio_id c) image_data of
        Some e \<Rightarrow> (Inl (except_invalid_image e), [])
      | None \<Rightarrow>
          (let request =
                 GenerateContent (client self) (model_name self) prompt image_data content_type
           in case generate_content w (client self) (model_name self) prompt image_data content_type of
                Inl e \<Rightarrow> (Inl (except_clauses e), [request])
              | Inr None \<Rightarrow> (Inl (except_clauses NoneType_strip), [request])
              | Inr (Some text) \<Rightarrow>
                  (case json_loads w (strip_fences text) of
                     Inl e \<Rightarrow> (Inl (except_clauses e), [request])
                   | Inr result \<Rightarrow> (Inr result, [request]))))"

section \<open>app/api/endpoints/receipts.py\<close>

record UploadFile =
  content_type :: "str option"
  body :: bytes

text \<open>
  What the handler raises: an \<^verbatim>\<open>HTTPException\<close> with its status code and detail, or an
  exception that none of its \<^verbatim>\<open>except\<close> clauses takes and that leaves it as it is.
\<close>

datatype raised = HTTPException nat str | Uncaught pyexn

definition allowed_types :: "str list" where
  "allowed_types = [ustr ''image/jpeg'', ustr ''image/png'', ustr ''image/webp'', ustr ''image/heic'']"

definition invalid_file_type :: raised where
  "invalid_file_type =
     HTTPException 400 (ustr ''Invalid file type. Allowed types: '' @ str_join (ustr '', '') allowed_types)"

text \<open>The two \<^verbatim>\<open>except\<close> clauses of the endpoint.\<close>

definition http_error :: "pyexn \<Rightarrow> raised" where
  "http_error e =
     (if isinstance_ValueError e then HTTPException 400 (message e)
      else if isinstance_Exception e
      then HTTPException 500 (ustr ''Failed to process receipt: '' @ message e)
      else Uncaught e)"

text \<open>
  \<open>Inr result\<close> is the value the handler returns, the body of the 200 response. A
  request without a declared content type has \<^verbatim>\<open>file.content_type = None\<close>, which is not
  in the list.
\<close>

definition scan_receipt ::
  "'j world \<Rightarrow> process \<Rightarrow> call \<Rightarrow> UploadFile \<Rightarrow> (raised + 'j) \<times> event list" where
  "scan_receipt w p c file =
     (case content_type file of
        None \<Rightarrow> (Inl invalid_file_type, [])
      | Some ct \<Rightarrow>
          if ct \<notin> set allowed_types then (Inl invalid_file_type, [])
          else
            (let contents = body file
             in case GeminiService_init w p of
                  (Inl e, t1) \<Rightarrow> (Inl (http_error e), ReadUpload # t1)
                | (Inr gemini_service, t1) \<Rightarrow>
                    (case parse_receipt w gemini_service c contents ct of
                       (Inl e, t2) \<Rightarrow> (Inl (http_error e), ReadUpload # t1 @ t2)
                     | (Inr result, t2) \<Rightarrow> (Inr result, ReadUpload # t1 @ t2))))"

section \<open>Test doubles\<close>

text \<open>
  The Python objects \<^verbatim>\<open>json.loads\<close> returns, for the examples below (numbers without a
  fraction only). The service and the endpoint are polymorphic in this type.
\<close>

datatype json =
  JNull
| JBool bool
| JInt int
| JString str
| JArray "json list"
| JObject "(str \<times> json) list"

text \<open>
  Two replies that are no fenced text: a JSON object whose number has 5000 digits, and
  100000 opening brackets.
\<close>

definition big_integer_reply :: str where
  "big_integer_reply = ustr ''{\"total\": '' @ replicate 5000 49 @ ustr ''}''"

definition deep_reply :: str where
  "deep_reply = replicate 100000 91"

text \<open>
  A decoder for the examples. It reads one document, \<^verbatim>\<open>{"items":[]}\<close> with nothing
  around it; on the two replies above it raises what \<^verbatim>\<open>json.loads\<close> of Python 3.11 raises
  there, a \<^verbatim>\<open>ValueError\<close> of the integer conversion and a \<^verbatim>\<open>RecursionError\<close>; it
  refuses every other text with the \<^verbatim>\<open>JSONDecodeError\<close> of a text that starts with no
  value.
\<close>

definition stub_json_loads :: "str \<Rightarrow> pyexn + json" where
  "stub_json_loads s =
     (if s = ustr ''{\"items\":[]}'' then Inr (JObject [(ustr ''items'', JArray [])])
      else if s = big_integer_reply
      then Inl (Exn ValueError
                 (ustr ''Exceeds the limit (4300 digits) for integer string conversion: value has 5000 digits; use sys.set_int_max_str_digits() to increase the limit''))
      else if s = deep_reply
      then Inl (Exn RecursionError
                 (ustr ''maximum recursion depth exceeded while decoding a JSON array from a unicode string''))
      else Inl (Exn JSONDecodeError (ustr ''Expecting value: line 1 column 1 (char 0)'')))"

text \<open>The decimal digits of a number, as \<^verbatim>\<open>str(n)\<close> prints them.\<close>

fun str_of_nat :: "nat \<Rightarrow> str" where
  "str_of_nat n = (if n < 10 then [48 + n] else str_of_nat (n div 10) @ [48 + n mod 10])"

text \<open>
  A stubbed outside world. The image decoder refuses the empty byte sequence only, with
  a message that prints the \<^verbatim>\<open>BytesIO\<close> object as Pillow's does; the constructor of the
  client refuses the empty key with a \<^verbatim>\<open>ValueError\<close>, as the library's does; the upstream
  call gives \<open>reply\<close> whatever it is asked.
\<close>

definition stub_world :: "(pyexn + str option) \<Rightarrow> json world" where
  "stub_world reply =
     \<lparr>pil_verify =
        (\<lambda>i b. if b = []
               then Some (Exn OtherException
                            (ustr ''cannot identify image file <_io.BytesIO object at ''
                             @ str_of_nat i @ ustr ''>''))
               else None),
      genai_Client =
        (\<lambda>k. if k = [] then Some (Exn ValueError (ustr ''Missing key inputs argument!''))
             else None),
      generate_content = (\<lambda>k m q d t. reply),
      json_loads = stub_json_loads\<rparr>"

definition stub_call :: call where
  "stub_call = \<lparr>bytesio_id = 140231\<rparr>"


definition stub_process :: process where
  "stub_process =
     \<lparr>settings = Settings_defaults,
      os_environ = [ustr ''GEMINI_API_KEY'' \<mapsto> ustr ''secret'', ustr ''HOME'' \<mapsto> ustr ''/root'']\<rparr>"


definition stub_service :: GeminiService where
  "stub_service = \<lparr>client = ustr ''secret'', model_name = ustr ''gemini-2.5-flash''\<rparr>"

definition png_upload :: UploadFile where
  "png_upload = \<lparr>content_type = Some (ustr ''image/png''), body = [137, 80, 78, 71]\<rparr>"

definition fenced_reply :: str where
  "fenced_reply = ustr ''```json\<newline>{\"items\":[]}\<newline>```''"

text \<open>
  Conversions for the examples of the settings: the texts \<^verbatim>\<open>true\<close> and \<^verbatim>\<open>false\<close>, and
  the text \<^verbatim>\<open>9090\<close>; every other text is refused.
\<close>

definition stub_as_bool :: "str \<Rightarrow> bool option" where
  "stub_as_bool s =
     (if s = ustr ''true'' then Some True else if s = ustr ''false'' then Some False else None)"

definition stub_as_int :: "str \<Rightarrow> int option" where
  "stub_as_int s = (if s = ustr ''9090'' then Some 9090 else None)"

definition stub_env :: "str \<rightharpoonup> str" where
  "stub_env =
     [ustr ''gemini_api_key'' \<mapsto> ustr ''secret'', ustr ''debug'' \<mapsto> ustr ''true'',
      ustr ''port'' \<mapsto> ustr ''9090'', ustr ''expo_public_api_url'' \<mapsto> ustr ''http://localhost'']"

section \<open>Strings, lines and slices\<close>

lemma py_slice_inner: "py_slice xs 1 (- 1) = butlast (tl xs)"
proof (cases xs)
  case Nil
  then show ?thesis by (simp add: py_slice_def)
next
  case (Cons a as)
  have n: "nat (1 + int k) = Suc k" for k by simp
  from Cons show ?thesis
    by (cases as) (simp_all add: py_slice_def Let_def butlast_conv_take n)
qed

lemma str_split_not_Nil: "str_split sep s \<noteq> []"
  by (induction s) (auto split: list.splits)

lemma str_split_no_sep: "sep \<notin> set s \<Longrightarrow> str_split sep s = [s]"
  by (induction s) auto

lemma str_split_append_sep:
  "str_split sep (a @ sep # b) = str_split sep a @ str_split sep b"
  by (induction a) (auto split: list.splits simp: str_split_not_Nil)

lemma str_join_split: "str_join [sep] (str_split sep s) = s"
proof (induction s)
  case Nil
  then show ?case by simp
next
  case (Cons c cs)
  show ?case
  proof (cases "c = sep")
    case True
    then show ?thesis using Cons by (cases "str_split sep cs") (auto simp: str_split_not_Nil)
  next
    case False
    then show ?thesis using Cons
      by (cases "str_split sep cs"; cases "tl (str_split sep cs)") auto
  qed
qed

lemma strip_fences_fenced:
  "str_startswith (str_strip t) (ustr ''```'') \<Longrightarrow>
   strip_fences t = str_join [10] (butlast (tl (str_split 10 (str_strip t))))"
  by (simp add: strip_fences_def Let_def py_slice_inner)

lemma strip_fences_plain:
  "\<not> str_startswith (str_strip t) (ustr ''```'') \<Longrightarrow> strip_fences t = str_strip t"
  by (simp add: strip_fences_def Let_def)

lemma inner_lines:
  assumes "10 \<notin> set l0" and "10 \<notin> set ln"
  shows "str_join [10] (butlast (tl (str_split 10 (l0 @ 10 # middle @ 10 # ln)))) = middle"
proof -
  have "str_split 10 (l0 @ 10 # middle @ 10 # ln) = l0 # str_split 10 middle @ [ln]"
    using assms by (simp add: str_split_append_sep str_split_no_sep)
  then show ?thesis by (simp add: str_join_split)
qed

lemma two_lines:
  assumes "10 \<notin> set l0" and "10 \<notin> set ln"
  shows "str_join [10] (butlast (tl (str_split 10 (l0 @ 10 # ln)))) = []"
  using assms by (simp add: str_split_append_sep str_split_no_sep)

lemmas str_eval =
  str_strip_def str_lstrip_def str_rstrip_def str_startswith_def ustr_def isspace_def

lemma strip_fenced_reply: "str_strip fenced_reply = fenced_reply"
  by (simp add: fenced_reply_def str_eval)

lemma startswith_fenced_reply: "str_startswith fenced_reply (ustr ''```'')"
  by (simp add: fenced_reply_def str_eval)

lemma strip_fences_fenced_reply: "strip_fences fenced_reply = ustr ''{\"items\":[]}''"
  by (simp add: strip_fences_fenced strip_fenced_reply startswith_fenced_reply)
     (simp add: fenced_reply_def ustr_def)

lemma dropWhile_all: "\<forall>x\<in>set xs. P x \<Longrightarrow> dropWhile P (xs @ ys) = dropWhile P ys"
  by (induction xs) auto

lemma str_strip_padding:
  assumes "list_all isspace l" and "list_all isspace r"
    and "s \<noteq> []" and "\<not> isspace (hd s)" and "\<not> isspace (last s)"
  shows "str_strip (l @ s @ r) = s"
proof -
  from assms(3,4) have front: "dropWhile isspace (s @ r) = s @ r"
    by (cases s) simp_all
  from assms(3,5) have rear: "dropWhile isspace (rev s) = rev s"
    by (cases s rule: rev_cases) simp_all
  have "str_lstrip (l @ s @ r) = s @ r"
    using assms(1) front by (simp add: str_lstrip_def list_all_iff dropWhile_all)
  moreover have "dropWhile isspace (rev r @ rev s) = rev s"
    using assms(2) rear by (simp add: list_all_iff dropWhile_all)
  ultimately show ?thesis
    by (simp add: str_strip_def str_rstrip_def)
qed

lemma str_strip_all_space:
  assumes "list_all isspace t"
  shows "str_strip t = []"
proof -
  from assms have e: "dropWhile isspace t = []"
    by (simp add: list_all_iff)
  show ?thesis
    unfolding str_strip_def str_rstrip_def str_lstrip_def e by simp
qed

lemma str_strip_self:
  "s \<noteq> [] \<Longrightarrow> \<not> isspace (hd s) \<Longrightarrow> \<not> isspace (last s) \<Longrightarrow> str_strip s = s"
  using str_strip_padding [of "[]" "[]" s] by simp

lemma startswith_fence_hd:
  "str_startswith s (ustr ''```'') \<Longrightarrow> s \<noteq> [] \<and> \<not> isspace (hd s)"
  by (cases s) (auto simp: str_startswith_def ustr_def isspace_def)

section \<open>The test doubles, evaluated\<close>

lemma stub_world_simps:
  "pil_verify (stub_world r) i b
     = (if b = []
        then Some (Exn OtherException
                     (ustr ''cannot identify image file <_io.BytesIO object at ''
                      @ str_of_nat i @ ustr ''>''))
        else None)"
  "genai_Client (stub_world r) k
     = (if k = [] then Some (Exn ValueError (ustr ''Missing key inputs argument!'')) else None)"
  "generate_content (stub_world r) k m q d t = r"
  "json_loads (stub_world r) = stub_json_loads"
  by (simp_all add: stub_world_def)

lemma length_big_integer_reply: "length big_integer_reply = 5011"
  by (simp add: big_integer_reply_def ustr_def)

lemma length_deep_reply: "length deep_reply = 100000"
  by (simp add: deep_reply_def)

lemma replies_differ:
  "big_integer_reply \<noteq> ustr ''{\"items\":[]}''"
  "deep_reply \<noteq> ustr ''{\"items\":[]}''"
  "deep_reply \<noteq> big_integer_reply"
proof -
  have "length (ustr ''{\"items\":[]}'') = 12"
    by (simp add: ustr_def)
  then show "big_integer_reply \<noteq> ustr ''{\"items\":[]}''" "deep_reply \<noteq> ustr ''{\"items\":[]}''"
    using length_big_integer_reply length_deep_reply by auto
  show "deep_reply \<noteq> big_integer_reply"
    using length_big_integer_reply length_deep_reply by auto
qed

lemma stub_json_loads_items:
  "stub_json_loads (ustr ''{\"items\":[]}'') = Inr (JObject [(ustr ''items'', JArray [])])"
  by (simp add: stub_json_loads_def)

lemma stub_json_loads_big_integer:
  "stub_json_loads big_integer_reply
     = Inl (Exn ValueError
              (ustr ''Exceeds the limit (4300 digits) for integer string conversion: value has 5000 digits; use sys.set_int_max_str_digits() to increase the limit''))"
  by (simp add: stub_json_loads_def replies_differ)

lemma stub_json_loads_deep:
  "stub_json_loads deep_reply
     = Inl (Exn RecursionError
              (ustr ''maximum recursion depth exceeded while decoding a JSON array from a unicode string''))"
  by (simp add: stub_json_loads_def replies_differ)

lemma stub_json_loads_refuses:
  assumes "s \<noteq> ustr ''{\"items\":[]}''" and "length s < 5011"
  shows "stub_json_loads s = Inl (Exn JSONDecodeError (ustr ''Expecting value: line 1 column 1 (char 0)''))"
proof -
  from assms(2) have "s \<noteq> big_integer_reply" "s \<noteq> deep_reply"
    using length_big_integer_reply length_deep_reply by auto
  with assms(1) show ?thesis
    by (simp add: stub_json_loads_def)
qed

lemma stub_json_loads_empty:
  "stub_json_loads [] = Inl (Exn JSONDecodeError (ustr ''Expecting value: line 1 column 1 (char 0)''))"
  by (rule stub_json_loads_refuses) (simp_all add: ustr_def)

lemma strip_fences_unfenced:
  assumes "s \<noteq> []" and "\<not> isspace (hd s)" and "\<not> isspace (last s)"
    and "\<not> str_startswith s (ustr ''```'')"
  shows "strip_fences s = s"
  using assms by (simp add: strip_fences_def str_strip_self)

lemma strip_fences_big_integer_reply: "strip_fences big_integer_reply = big_integer_reply"
proof (rule strip_fences_unfenced)
  show "big_integer_reply \<noteq> []"
    using length_big_integer_reply by auto
  show "\<not> isspace (hd big_integer_reply)" "\<not> isspace (last big_integer_reply)"
    by (simp_all add: big_integer_reply_def ustr_def isspace_def)
  show "\<not> str_startswith big_integer_reply (ustr ''```'')"
    by (simp add: big_integer_reply_def ustr_def str_startswith_def)
qed

lemma strip_fences_deep_reply: "strip_fences deep_reply = deep_reply"
proof (rule strip_fences_unfenced)
  have n: "(100000::nat) = Suc 99999"
    by simp
  have d1: "deep_reply = 91 # replicate 99999 91"
    unfolding deep_reply_def by (subst n) (rule replicate_Suc)
  then have d2: "deep_reply = replicate 99999 91 @ [91]"
    by (simp add: replicate_append_same)
  note d = d1 d2
  show "deep_reply \<noteq> []"
    using length_deep_reply by auto
  show "\<not> isspace (hd deep_reply)"
    by (simp add: d(1) isspace_def)
  show "\<not> isspace (last deep_reply)"
    by (simp add: d(2) isspace_def)
  show "\<not> str_startswith deep_reply (ustr ''```'')"
    by (simp add: d(1) ustr_def str_startswith_def)
qed

section \<open>The response normalizer\<close>

text \<open>
  C1. The text handed to the JSON decoder is the response without its surrounding
  whitespace: for a response made of whitespace, a text that neither starts nor ends with
  whitespace, and whitespace again, trimming leaves that text. When the text does not
  start with three backticks, the decoder is given the text itself; when it does, the
  decoder is given its lines without the first and the last one, joined again (for a first
  line, a line feed, a middle part, a line feed and a last line: the middle part). A
  response of whitespace only leaves the empty text. For the fenced answer of the
  specification the decoder is given \<^verbatim>\<open>{"items":[]}\<close>, and a response without fences and
  without surrounding whitespace is decoded as it is.
\<close>

theorem normalizer_strips_fences:
  "(list_all isspace l \<longrightarrow> list_all isspace r \<longrightarrow>
      s \<noteq> [] \<longrightarrow> \<not> isspace (hd s) \<longrightarrow> \<not> isspace (last s) \<longrightarrow>
      str_strip (l @ s @ r) = s
      \<and> (\<not> str_startswith s (ustr ''```'') \<longrightarrow>
            json_loads w (strip_fences (l @ s @ r)) = json_loads w s)
      \<and> (str_startswith s (ustr ''```'') \<longrightarrow>
            json_loads w (strip_fences (l @ s @ r))
              = json_loads w (str_join [10] (butlast (tl (str_split 10 s)))))
      \<and> (str_startswith s (ustr ''```'') \<longrightarrow>
            s = l0 @ 10 # middle @ 10 # ln \<longrightarrow> 10 \<notin> set l0 \<longrightarrow> 10 \<notin> set ln \<longrightarrow>
            json_loads w (strip_fences (l @ s @ r)) = json_loads w middle))
   \<and> (list_all isspace t \<longrightarrow> strip_fences t = [])
   \<and> (str_startswith (str_strip t) (ustr ''```'') \<longrightarrow>
      json_loads w (strip_fences t)
        = json_loads w (str_join [10] (butlast (tl (str_split 10 (str_strip t))))))
   \<and> (\<not> str_startswith (str_strip t) (ustr ''```'') \<longrightarrow>
      json_loads w (strip_fences t) = json_loads w (str_strip t))
   \<and> json_loads w (strip_fences (ustr ''```json\<newline>{\"items\":[]}\<newline>```''))
        = json_loads w (ustr ''{\"items\":[]}'')
   \<and> (t \<noteq> [] \<longrightarrow> \<not> isspace (hd t) \<longrightarrow> \<not> isspace (last t) \<longrightarrow>
      \<not> str_startswith t (ustr ''```'') \<longrightarrow>
      json_loads w (strip_fences t) = json_loads w t)"
proof -
  have c1: "str_strip (l @ s @ r) = s
      \<and> (\<not> str_startswith s (ustr ''```'') \<longrightarrow>
            json_loads w (strip_fences (l @ s @ r)) = json_loads w s)
      \<and> (str_startswith s (ustr ''```'') \<longrightarrow>
            json_loads w (strip_fences (l @ s @ r))
              = json_loads w (str_join [10] (butlast (tl (str_split 10 s)))))
      \<and> (str_startswith s (ustr ''```'') \<longrightarrow>
            s = l0 @ 10 # middle @ 10 # ln \<longrightarrow> 10 \<notin> set l0 \<longrightarrow> 10 \<notin> set ln \<longrightarrow>
            json_loads w (strip_fences (l @ s @ r)) = json_loads w middle)"
    if pad: "list_all isspace l" "list_all isspace r"
      and core: "s \<noteq> []" "\<not> isspace (hd s)" "\<not> isspace (last s)"
  proof -
    have trim: "str_strip (l @ s @ r) = s"
      using pad core by (rule str_strip_padding)
    have plain: "strip_fences (l @ s @ r) = s" if "\<not> str_startswith s (ustr ''```'')"
      using that by (simp add: strip_fences_plain trim)
    have fenced: "strip_fences (l @ s @ r) = str_join [10] (butlast (tl (str_split 10 s)))"
      if "str_startswith s (ustr ''```'')"
      using that by (simp add: strip_fences_fenced trim)
    have mid: "strip_fences (l @ s @ r) = middle"
      if "str_startswith s (ustr ''```'')" "s = l0 @ 10 # middle @ 10 # ln"
        "10 \<notin> set l0" "10 \<notin> set ln"
      using fenced [OF that(1)] inner_lines [OF that(3,4), of middle] that(2) by simp
    from trim plain fenced mid show ?thesis
      by metis
  qed
  have c2: "list_all isspace t \<longrightarrow> strip_fences t = []"
    by (simp add: strip_fences_def str_strip_all_space str_startswith_def ustr_def)
  have c3: "str_startswith (str_strip t) (ustr ''```'') \<longrightarrow>
      json_loads w (strip_fences t)
        = json_loads w (str_join [10] (butlast (tl (str_split 10 (str_strip t)))))"
    by (simp add: strip_fences_fenced)
  have c4: "\<not> str_startswith (str_strip t) (ustr ''```'') \<longrightarrow>
      json_loads w (strip_fences t) = json_loads w (str_strip t)"
    by (simp add: strip_fences_plain)
  have c5: "json_loads w (strip_fences (ustr ''```json\<newline>{\"items\":[]}\<newline>```''))
        = json_loads w (ustr ''{\"items\":[]}'')"
    using strip_fences_fenced_reply by (simp add: fenced_reply_def)
  have c6: "t \<noteq> [] \<longrightarrow> \<not> isspace (hd t) \<longrightarrow> \<not> isspace (last t) \<longrightarrow>
      \<not> str_startswith t (ustr ''```'') \<longrightarrow>
      json_loads w (strip_fences t) = json_loads w t"
    by (simp add: strip_fences_unfenced)
  have c1': "list_all isspace l \<longrightarrow> list_all isspace r \<longrightarrow>
      s \<noteq> [] \<longrightarrow> \<not> isspace (hd s) \<longrightarrow> \<not> isspace (last s) \<longrightarrow>
      str_strip (l @ s @ r) = s
      \<and> (\<not> str_startswith s (ustr ''```'') \<longrightarrow>
            json_loads w (strip_fences (l @ s @ r)) = json_loads w s)
      \<and> (str_startswith s (ustr ''```'') \<longrightarrow>
            json_loads w (strip_fences (l @ s @ r))
              = json_loads w (str_join [10] (butlast (tl (str_split 10 s)))))
      \<and> (str_startswith s (ustr ''```'') \<longrightarrow>
            s = l0 @ 10 # middle @ 10 # ln \<longrightarrow> 10 \<notin> set l0 \<longrightarrow> 10 \<notin> set ln \<longrightarrow>
            json_loads w (strip_fences (l @ s @ r)) = json_loads w middle)"
    using c1 by (intro impI)
  from c1' c2 c3 c4 c5 c6 show ?thesis
    by (intro conjI)
qed

theorem normalizer_strips_fences_witness:
  "str_strip ([12, 32, 10] @ fenced_reply @ [32, 160, 10]) = fenced_reply
   \<and> json_loads (stub_world (Inr None)) (strip_fences ([12, 32, 10] @ fenced_reply @ [32, 160, 10]))
       = Inr (JObject [(ustr ''items'', JArray [])])
   \<and> json_loads (stub_world (Inr None))
         (strip_fences ([12, 32, 10] @ ustr ''{\"items\":[]}'' @ [32, 160, 10]))
       = Inr (JObject [(ustr ''items'', JArray [])])
   \<and> json_loads (stub_world (Inr None)) ([12, 32, 10] @ ustr ''{\"items\":[]}'' @ [32, 160, 10])
       = Inl (Exn JSONDecodeError (ustr ''Expecting value: line 1 column 1 (char 0)''))
   \<and> strip_fences [32, 10, 9] = []
   \<and> json_loads (stub_world (Inr None)) (strip_fences (ustr ''{\"items\":[]}''))
       = Inr (JObject [(ustr ''items'', JArray [])])"
proof -
  let ?w = "stub_world (Inr None) :: json world"
  let ?l = "[12, 32, 10] :: str"
  let ?r = "[32, 160, 10] :: str"
  let ?j = "ustr ''{\"items\":[]}''"
  let ?obj = "JObject [(ustr ''items'', JArray [])]"
  have pad: "list_all isspace ?l" "list_all isspace ?r"
    by (simp_all add: isspace_def)
  have fcore: "fenced_reply \<noteq> []" "\<not> isspace (hd fenced_reply)" "\<not> isspace (last fenced_reply)"
    by (simp_all add: fenced_reply_def ustr_def isspace_def)
  have jcore: "?j \<noteq> []" "\<not> isspace (hd ?j)" "\<not> isspace (last ?j)"
    by (simp_all add: ustr_def isspace_def)
  have dec: "fenced_reply = ustr ''```json'' @ 10 # ?j @ 10 # ustr ''```''"
    by (simp add: fenced_reply_def ustr_def)
  have n1: "10 \<notin> set (ustr ''```json'')" and n2: "10 \<notin> set (ustr ''```'')"
    by (simp_all add: ustr_def)
  have nf: "\<not> str_startswith ?j (ustr ''```'')"
    by (simp add: str_startswith_def ustr_def)
  have sp: "list_all isspace [32, 10, 9]"
    by (simp add: isspace_def)
  note f = normalizer_strips_fences
    [of ?l ?r fenced_reply ?w "ustr ''```json''" ?j "ustr ''```''", THEN conjunct1, rule_format,
     OF pad fcore]
  note a = f [THEN conjunct1]
  note b = f [THEN conjunct2, THEN conjunct2, THEN conjunct2, rule_format,
    OF startswith_fenced_reply dec n1 n2]
  note g = normalizer_strips_fences
    [of ?l ?r ?j ?w, THEN conjunct1, rule_format, OF pad jcore]
  note c = g [THEN conjunct2, THEN conjunct1, rule_format, OF nf]
  note d = normalizer_strips_fences
    [of _ _ _ _ _ _ _ "[32, 10, 9]", THEN conjunct2, THEN conjunct1, rule_format, OF sp]
  note e = normalizer_strips_fences
    [of _ _ _ ?w _ _ _ ?j, THEN conjunct2, THEN conjunct2, THEN conjunct2, THEN conjunct2,
     THEN conjunct2, rule_format, OF jcore nf]
  have loads: "json_loads ?w ?j = Inr ?obj"
    by (simp add: stub_world_simps stub_json_loads_items)
  have refused: "json_loads ?w (?l @ ?j @ ?r)
       = Inl (Exn JSONDecodeError (ustr ''Expecting value: line 1 column 1 (char 0)''))"
    unfolding stub_world_simps by (rule stub_json_loads_refuses) (simp_all add: ustr_def)
  from a b c d e loads refused show ?thesis
    by simp
qed

text \<open>
  C9. A trimmed response that starts with three backticks loses its first and its last
  line whatever the last line is. With a last line that is no fence, the text handed to
  the decoder is the part between the first and the last line, so the last content line
  is gone; with two lines or one line nothing is left, and where the decoder refuses the
  empty text (as \<^verbatim>\<open>json.loads("")\<close> does) the call raises the \<open>ValueError\<close> of a
  response that is not JSON.
\<close>

theorem fence_without_closing_line:
  "(str_startswith (str_strip t) (ustr ''```'') \<longrightarrow>
      strip_fences t = str_join [10] (butlast (tl (str_split 10 (str_strip t)))))
   \<and> (str_startswith (str_strip t) (ustr ''```'') \<longrightarrow>
      str_strip t = l0 @ 10 # middle @ 10 # ln \<longrightarrow> 10 \<notin> set l0 \<longrightarrow> 10 \<notin> set ln \<longrightarrow>
      \<not> str_startswith ln (ustr ''```'') \<longrightarrow> strip_fences t = middle)
   \<and> (str_startswith (str_strip t) (ustr ''```'') \<longrightarrow>
      str_strip t = l0 @ 10 # ln \<longrightarrow> 10 \<notin> set l0 \<longrightarrow> 10 \<notin> set ln \<longrightarrow>
      strip_fences t = [])
   \<and> (str_startswith (str_strip t) (ustr ''```'') \<longrightarrow> 10 \<notin> set (str_strip t) \<longrightarrow>
      strip_fences t = [])
   \<and> (str_startswith (str_strip t) (ustr ''```'') \<longrightarrow> 10 \<notin> set (str_strip t) \<longrightarrow>
      pil_verify w (bytesio_id c) image_data = None \<longrightarrow>
      generate_content w (client self) (model_name self) prompt image_data ct = Inr (Some t) \<longrightarrow>
      json_loads w [] = Inl (Exn JSONDecodeError m) \<longrightarrow>
      fst (parse_receipt w self c image_data ct)
        = Inl (Exn ValueError (ustr ''Failed to parse Gemini response as JSON: '' @ m)))"
proof -
  let ?f = "str_startswith (str_strip t) (ustr ''```'')"
  have c1: "?f \<longrightarrow> strip_fences t = str_join [10] (butlast (tl (str_split 10 (str_strip t))))"
    by (simp add: strip_fences_fenced)
  have mid: "strip_fences t = middle"
    if "?f" "str_strip t = l0 @ 10 # middle @ 10 # ln" "10 \<notin> set l0" "10 \<notin> set ln"
    using that inner_lines [of l0 ln middle] by (simp add: strip_fences_fenced)
  have c2: "?f \<longrightarrow> str_strip t = l0 @ 10 # middle @ 10 # ln \<longrightarrow> 10 \<notin> set l0 \<longrightarrow> 10 \<notin> set ln \<longrightarrow>
      \<not> str_startswith ln (ustr ''```'') \<longrightarrow> strip_fences t = middle"
    using mid by blast
  have two: "strip_fences t = []"
    if "?f" "str_strip t = l0 @ 10 # ln" "10 \<notin> set l0" "10 \<notin> set ln"
    using that two_lines [of l0 ln] by (simp add: strip_fences_fenced)
  have c3: "?f \<longrightarrow> str_strip t = l0 @ 10 # ln \<longrightarrow> 10 \<notin> set l0 \<longrightarrow> 10 \<notin> set ln \<longrightarrow>
      strip_fences t = []"
    using two by blast
  have one: "strip_fences t = []" if "?f" "10 \<notin> set (str_strip t)"
    using that by (simp add: strip_fences_fenced str_split_no_sep)
  have c4: "?f \<longrightarrow> 10 \<notin> set (str_strip t) \<longrightarrow> strip_fences t = []"
    using one by blast
  have fails: "fst (parse_receipt w self c image_data ct)
        = Inl (Exn ValueError (ustr ''Failed to parse Gemini response as JSON: '' @ m))"
    if "?f" "10 \<notin> set (str_strip t)" "pil_verify w (bytesio_id c) image_data = None"
      "generate_content w (client self) (model_name self) prompt image_data ct = Inr (Some t)"
      "json_loads w [] = Inl (Exn JSONDecodeError m)"
  proof -
    have "strip_fences t = []" using that(1,2) by (rule one)
    with that(3,4,5) show ?thesis
      by (simp add: parse_receipt_def Let_def except_clauses_def isinstance_JSONDecodeError_def)
  qed
  have c5: "?f \<longrightarrow> 10 \<notin> set (str_strip t) \<longrightarrow>
      pil_verify w (bytesio_id c) image_data = None \<longrightarrow>
      generate_content w (client self) (model_name self) prompt image_data ct = Inr (Some t) \<longrightarrow>
      json_loads w [] = Inl (Exn JSONDecodeError m) \<longrightarrow>
      fst (parse_receipt w self c image_data ct)
        = Inl (Exn ValueError (ustr ''Failed to parse Gemini response as JSON: '' @ m))"
    using fails by blast
  from c1 c2 c3 c4 c5 show ?thesis by blast
qed

theorem fence_without_closing_line_witness:
  "str_startswith (str_strip (ustr ''```json\<newline>{\"items\":[]}\<newline>{}'')) (ustr ''```'')
   \<and> \<not> str_startswith (ustr ''{}'') (ustr ''```'')
   \<and> strip_fences (ustr ''```json\<newline>{\"items\":[]}\<newline>{}'') = ustr ''{\"items\":[]}''
   \<and> strip_fences (ustr ''```json\<newline>{\"items\":[]}'') = []
   \<and> str_startswith (str_strip (ustr ''```{\"items\":[]}```'')) (ustr ''```'')
   \<and> 10 \<notin> set (str_strip (ustr ''```{\"items\":[]}```''))
   \<and> strip_fences (ustr ''```{\"items\":[]}```'') = []
   \<and> fst (parse_receipt (stub_world (Inr (Some (ustr ''```{\"items\":[]}```''))))
          stub_service stub_call (body png_upload) (ustr ''image/png''))
       = Inl (Exn ValueError (ustr ''Failed to parse Gemini response as JSON: Expecting value: line 1 column 1 (char 0)''))"
proof -
  let ?t3 = "ustr ''```json\<newline>{\"items\":[]}\<newline>{}''"
  let ?t2 = "ustr ''```json\<newline>{\"items\":[]}''"
  let ?t1 = "ustr ''```{\"items\":[]}```''"
  let ?w = "stub_world (Inr (Some ?t1))"
  have s3: "str_strip ?t3 = ustr ''```json'' @ 10 # ustr ''{\"items\":[]}'' @ 10 # ustr ''{}''"
    by (simp add: str_eval)
  have s2: "str_strip ?t2 = ustr ''```json'' @ 10 # ustr ''{\"items\":[]}''"
    by (simp add: str_eval)
  have s1: "str_strip ?t1 = ?t1"
    by (simp add: str_eval)
  have f3: "str_startswith (str_strip ?t3) (ustr ''```'')"
    unfolding s3 by (simp add: str_startswith_def ustr_def)
  have f2: "str_startswith (str_strip ?t2) (ustr ''```'')"
    unfolding s2 by (simp add: str_startswith_def ustr_def)
  have f1: "str_startswith (str_strip ?t1) (ustr ''```'')"
    unfolding s1 by (simp add: str_startswith_def ustr_def)
  have n0: "10 \<notin> set (ustr ''```json'')" and nm: "10 \<notin> set (ustr ''{\"items\":[]}'')"
    and nl: "10 \<notin> set (ustr ''{}'')"
    by (simp_all add: ustr_def)
  have nf: "\<not> str_startswith (ustr ''{}'') (ustr ''```'')"
    by (simp add: str_startswith_def ustr_def)
  have n1: "10 \<notin> set (str_strip ?t1)"
    unfolding s1 by (simp add: ustr_def)
  have pil: "pil_verify ?w (bytesio_id stub_call) (body png_upload) = None"
    by (simp add: stub_world_simps png_upload_def)
  have gen: "generate_content ?w (client stub_service) (model_name stub_service) prompt
               (body png_upload) (ustr ''image/png'') = Inr (Some ?t1)"
    by (simp add: stub_world_simps)
  have emp: "json_loads ?w []
                 = Inl (Exn JSONDecodeError (ustr ''Expecting value: line 1 column 1 (char 0)''))"
    by (simp add: stub_world_simps stub_json_loads_empty)
  from fence_without_closing_line
         [of ?t3 "ustr ''```json''" "ustr ''{\"items\":[]}''" "ustr ''{}''"] f3 s3 n0 nl nf
  have a: "strip_fences ?t3 = ustr ''{\"items\":[]}''"
    by blast
  from fence_without_closing_line
         [of ?t2 "ustr ''```json''" _ "ustr ''{\"items\":[]}''"] f2 s2 n0 nm
  have b: "strip_fences ?t2 = []"
    by blast
  from fence_without_closing_line [of ?t1] f1 n1
  have c: "strip_fences ?t1 = []"
    by blast
  from fence_without_closing_line
         [of ?t1 _ _ _ ?w stub_call "body png_upload" stub_service "ustr ''image/png''"
             "ustr ''Expecting value: line 1 column 1 (char 0)''"]
       f1 n1 pil gen emp
  have d: "fst (parse_receipt ?w stub_service stub_call (body png_upload) (ustr ''image/png''))
       = Inl (Exn ValueError (ustr ''Failed to parse Gemini response as JSON: '' @ ustr ''Expecting value: line 1 column 1 (char 0)''))"
    by blast
  have app: "ustr ''Failed to parse Gemini response as JSON: '' @ ustr ''Expecting value: line 1 column 1 (char 0)''
      = ustr ''Failed to parse Gemini response as JSON: Expecting value: line 1 column 1 (char 0)''"
    by (simp add: ustr_def)
  from f3 nf a b f1 n1 c d app show ?thesis by simp
qed

section \<open>The extraction client\<close>

lemma parse_receipt_invalid:
  "pil_verify w (bytesio_id c) image_data = Some e \<Longrightarrow>
   parse_receipt w self c image_data ct = (Inl (except_invalid_image e), [])"
  by (simp add: parse_receipt_def)

lemma parse_receipt_text:
  "pil_verify w (bytesio_id c) image_data = None \<Longrightarrow>
   generate_content w (client self) (model_name self) prompt image_data ct = Inr (Some t) \<Longrightarrow>
   parse_receipt w self c image_data ct
     = (case json_loads w (strip_fences t) of
          Inl e \<Rightarrow> Inl (except_clauses e)
        | Inr result \<Rightarrow> Inr result,
        [GenerateContent (client self) (model_name self) prompt image_data ct])"
  by (simp add: parse_receipt_def Let_def split: sum.splits)

lemma parse_receipt_upstream:
  "pil_verify w (bytesio_id c) image_data = None \<Longrightarrow>
   generate_content w (client self) (model_name self) prompt image_data ct = Inl e \<Longrightarrow>
   parse_receipt w self c image_data ct
     = (Inl (except_clauses e),
        [GenerateContent (client self) (model_name self) prompt image_data ct])"
  by (simp add: parse_receipt_def Let_def)

lemma parse_receipt_no_text:
  "pil_verify w (bytesio_id c) image_data = None \<Longrightarrow>
   generate_content w (client self) (model_name self) prompt image_data ct = Inr None \<Longrightarrow>
   parse_receipt w self c image_data ct
     = (Inl (except_clauses NoneType_strip),
        [GenerateContent (client self) (model_name self) prompt image_data ct])"
  by (simp add: parse_receipt_def Let_def)

lemma except_clauses_cases:
  "isinstance_JSONDecodeError e \<Longrightarrow>
     except_clauses e = Exn ValueError (ustr ''Failed to parse Gemini response as JSON: '' @ message e)"
  "\<not> isinstance_JSONDecodeError e \<Longrightarrow> isinstance_Exception e \<Longrightarrow>
     except_clauses e = Exn RuntimeError (ustr ''Gemini API error: '' @ message e)"
  "\<not> isinstance_Exception e \<Longrightarrow> except_clauses e = e"
  by (auto simp: except_clauses_def isinstance_JSONDecodeError_def isinstance_Exception_def)

lemma parse_receipt_raises:
  assumes "fst (parse_receipt w self c image_data ct) = Inl x" and "isinstance_Exception x"
  shows "(\<exists>r. x = Exn ValueError (ustr ''Invalid image file: '' @ r))
       \<or> (\<exists>m. x = Exn ValueError (ustr ''Failed to parse Gemini response as JSON: '' @ m))
       \<or> (\<exists>m. x = Exn RuntimeError (ustr ''Gemini API error: '' @ m))"
  using assms
  by (auto simp: parse_receipt_def Let_def except_clauses_def except_invalid_image_def
           split: option.splits sum.splits if_splits)

text \<open>
  C2, as amended. When the image is accepted, the upstream call answers with a text and
  the decoder raises on what is left of it after trimming and fence stripping,
  \<open>parse_receipt\<close> returns no result and has made the upstream call once. When the
  decoder's exception is a \<open>JSONDecodeError\<close>, \<open>parse_receipt\<close> raises a \<open>ValueError\<close>
  whose message ends with the decoder's own message. Another exception of the decoder is
  wrapped as the \<open>RuntimeError\<close> of an upstream failure, and one outside
  \<^verbatim>\<open>Exception\<close> leaves \<open>parse_receipt\<close> as it is.
\<close>

theorem parse_receipt_malformed_response:
  assumes "pil_verify w (bytesio_id c) image_data = None"
    and "generate_content w (client self) (model_name self) prompt image_data ct = Inr (Some t)"
    and "json_loads w (strip_fences t) = Inl e"
  shows
  "(isinstance_JSONDecodeError e \<longrightarrow>
      parse_receipt w self c image_data ct
        = (Inl (Exn ValueError (ustr ''Failed to parse Gemini response as JSON: '' @ message e)),
           [GenerateContent (client self) (model_name self) prompt image_data ct]))
   \<and> (\<not> isinstance_JSONDecodeError e \<longrightarrow> isinstance_Exception e \<longrightarrow>
      parse_receipt w self c image_data ct
        = (Inl (Exn RuntimeError (ustr ''Gemini API error: '' @ message e)),
           [GenerateContent (client self) (model_name self) prompt image_data ct]))
   \<and> (\<not> isinstance_Exception e \<longrightarrow>
      parse_receipt w self c image_data ct
        = (Inl e, [GenerateContent (client self) (model_name self) prompt image_data ct]))"
  using assms(3) by (simp add: parse_receipt_text [OF assms(1,2)] except_clauses_cases)

text \<open>
  The claim as it was stated fails on a text that is not JSON and on which the decoder
  raises no \<open>JSONDecodeError\<close>: for 100000 opening brackets it raises a
  \<open>RecursionError\<close>, and \<open>parse_receipt\<close> raises the \<open>RuntimeError\<close> of an upstream
  failure, not the \<open>ValueError\<close> of a response that is not JSON.
\<close>

theorem parse_receipt_malformed_response_counterexample:
  "json_loads (stub_world (Inr (Some deep_reply))) (strip_fences deep_reply)
     = Inl (Exn RecursionError
              (ustr ''maximum recursion depth exceeded while decoding a JSON array from a unicode string''))
   \<and> parse_receipt (stub_world (Inr (Some deep_reply))) stub_service stub_call (body png_upload)
        (ustr ''image/png'')
     = (Inl (Exn RuntimeError
               (ustr ''Gemini API error: maximum recursion depth exceeded while decoding a JSON array from a unicode string'')),
        [GenerateContent (ustr ''secret'') (ustr ''gemini-2.5-flash'') prompt (body png_upload)
           (ustr ''image/png'')])"
proof -
  let ?w = "stub_world (Inr (Some deep_reply))"
  have pil: "pil_verify ?w (bytesio_id stub_call) (body png_upload) = None"
    by (simp add: stub_world_simps png_upload_def)
  have gen: "generate_content ?w (client stub_service) (model_name stub_service) prompt
               (body png_upload) (ustr ''image/png'') = Inr (Some deep_reply)"
    by (simp add: stub_world_simps)
  have bad: "json_loads ?w (strip_fences deep_reply)
     = Inl (Exn RecursionError
              (ustr ''maximum recursion depth exceeded while decoding a JSON array from a unicode string''))"
    by (simp add: strip_fences_deep_reply stub_world_simps stub_json_loads_deep)
  have "parse_receipt ?w stub_service stub_call (body png_upload) (ustr ''image/png'')
     = (Inl (except_clauses (Exn RecursionError
               (ustr ''maximum recursion depth exceeded while decoding a JSON array from a unicode string''))),
        [GenerateContent (client stub_service) (model_name stub_service) prompt (body png_upload)
           (ustr ''image/png'')])"
    by (simp add: parse_receipt_text [OF pil gen] bad)
  then have "parse_receipt ?w stub_service stub_call (body png_upload) (ustr ''image/png'')
     = (Inl (Exn RuntimeError
               (ustr ''Gemini API error: maximum recursion depth exceeded while decoding a JSON array from a unicode string'')),
        [GenerateContent (ustr ''secret'') (ustr ''gemini-2.5-flash'') prompt (body png_upload)
           (ustr ''image/png'')])"
    by (simp add: except_clauses_def isinstance_JSONDecodeError_def isinstance_Exception_def
          stub_service_def ustr_def)
  with bad show ?thesis
    by (intro conjI)
qed

theorem parse_receipt_malformed_response_witness:
  "parse_receipt (stub_world (Inr (Some (ustr ''Sorry, I cannot read this receipt.''))))
      stub_service stub_call (body png_upload) (ustr ''image/png'')
     = (Inl (Exn ValueError (ustr ''Failed to parse Gemini response as JSON: Expecting value: line 1 column 1 (char 0)'')),
        [GenerateContent (ustr ''secret'') (ustr ''gemini-2.5-flash'') prompt (body png_upload)
           (ustr ''image/png'')])
   \<and> parse_receipt (stub_world (Inr (Some big_integer_reply)))
      stub_service stub_call (body png_upload) (ustr ''image/png'')
     = (Inl (Exn RuntimeError (ustr ''Gemini API error: Exceeds the limit (4300 digits) for integer string conversion: value has 5000 digits; use sys.set_int_max_str_digits() to increase the limit'')),
        [GenerateContent (ustr ''secret'') (ustr ''gemini-2.5-flash'') prompt (body png_upload)
           (ustr ''image/png'')])
   \<and> parse_receipt
        ((stub_world (Inr (Some fenced_reply)))
           \<lparr>json_loads := (\<lambda>s. Inl (Exn BaseExceptionOnly (ustr ''KeyboardInterrupt'')))\<rparr>)
        stub_service stub_call (body png_upload) (ustr ''image/png'')
     = (Inl (Exn BaseExceptionOnly (ustr ''KeyboardInterrupt'')),
        [GenerateContent (ustr ''secret'') (ustr ''gemini-2.5-flash'') prompt (body png_upload)
           (ustr ''image/png'')])"
proof -
  let ?t = "ustr ''Sorry, I cannot read this receipt.''"
  let ?w = "stub_world (Inr (Some ?t))"
  let ?w2 = "stub_world (Inr (Some big_integer_reply))"
  let ?stop = "Exn BaseExceptionOnly (ustr ''KeyboardInterrupt'')"
  let ?w3 = "(stub_world (Inr (Some fenced_reply)))\<lparr>json_loads := (\<lambda>s. Inl ?stop)\<rparr>"
  let ?decode = "Exn JSONDecodeError (ustr ''Expecting value: line 1 column 1 (char 0)'')"
  let ?digits = "Exn ValueError (ustr ''Exceeds the limit (4300 digits) for integer string conversion: value has 5000 digits; use sys.set_int_max_str_digits() to increase the limit'')"
  have pil: "pil_verify (stub_world r) (bytesio_id stub_call) (body png_upload) = None" for r
    by (simp add: stub_world_simps png_upload_def)
  have pil3: "pil_verify ?w3 (bytesio_id stub_call) (body png_upload) = None"
    by (simp add: stub_world_simps png_upload_def)
  have gen: "generate_content (stub_world r) (client stub_service) (model_name stub_service) prompt
               (body png_upload) (ustr ''image/png'') = r" for r
    by (simp add: stub_world_simps)
  have gen3: "generate_content ?w3 (client stub_service) (model_name stub_service) prompt
               (body png_upload) (ustr ''image/png'') = Inr (Some fenced_reply)"
    by (simp add: stub_world_simps)
  have st: "strip_fences ?t = ?t"
    by (rule strip_fences_unfenced) (simp_all add: ustr_def isspace_def str_startswith_def)
  have bad: "json_loads ?w (strip_fences ?t) = Inl ?decode"
    unfolding st stub_world_simps by (rule stub_json_loads_refuses) (simp_all add: ustr_def)
  have bad2: "json_loads ?w2 (strip_fences big_integer_reply) = Inl ?digits"
    by (simp add: strip_fences_big_integer_reply stub_world_simps stub_json_loads_big_integer)
  have bad3: "json_loads ?w3 (strip_fences fenced_reply) = Inl ?stop"
    by simp
  have k1: "isinstance_JSONDecodeError ?decode"
    and k2: "\<not> isinstance_JSONDecodeError ?digits" "isinstance_Exception ?digits"
    and k3: "\<not> isinstance_Exception ?stop"
    by (simp_all add: isinstance_JSONDecodeError_def isinstance_Exception_def)
  note a = parse_receipt_malformed_response [OF pil gen bad, THEN conjunct1, rule_format, OF k1]
  note b = parse_receipt_malformed_response
    [OF pil gen bad2, THEN conjunct2, THEN conjunct1, rule_format, OF k2]
  note d = parse_receipt_malformed_response
    [OF pil3 gen3 bad3, THEN conjunct2, THEN conjunct2, rule_format, OF k3]
  from a b d show ?thesis
    by (simp add: stub_service_def ustr_def)
qed

text \<open>
  C3. When the decoder of the image raises, \<open>parse_receipt\<close> raises and makes no
  upstream call. An exception of the decoder that is an \<^verbatim>\<open>Exception\<close> becomes a
  \<open>ValueError\<close> that carries the decoder's message; one outside \<^verbatim>\<open>Exception\<close> leaves
  \<open>parse_receipt\<close> as it is. The endpoint has then read the upload and built the client,
  and nothing else.
\<close>

theorem parse_receipt_invalid_image:
  assumes "pil_verify w (bytesio_id c) image_data = Some e"
  shows "(isinstance_Exception e \<longrightarrow>
            parse_receipt w self c image_data ct
              = (Inl (Exn ValueError (ustr ''Invalid image file: '' @ message e)), []))
       \<and> (\<not> isinstance_Exception e \<longrightarrow> parse_receipt w self c image_data ct = (Inl e, []))
       \<and> (content_type file = Some ct \<longrightarrow> ct \<in> set allowed_types \<longrightarrow> body file = image_data \<longrightarrow>
            snd (scan_receipt w p c file) = [ReadUpload, ClientInit (api_key_of p)])
       \<and> (\<exists>x. parse_receipt w self c image_data ct = (Inl x, []))"
  using assms
  by (simp add: parse_receipt_invalid except_invalid_image_def scan_receipt_def
        GeminiService_init_def Let_def split: option.splits)

theorem parse_receipt_invalid_image_witness:
  "parse_receipt (stub_world (Inr (Some fenced_reply))) stub_service stub_call [] (ustr ''image/png'')
       = (Inl (Exn ValueError
                 (ustr ''Invalid image file: cannot identify image file <_io.BytesIO object at 140231>'')),
          [])
   \<and> parse_receipt
        ((stub_world (Inr (Some fenced_reply)))
           \<lparr>pil_verify := (\<lambda>i b. Some (Exn BaseExceptionOnly (ustr ''KeyboardInterrupt'')))\<rparr>)
        stub_service stub_call [] (ustr ''image/png'')
       = (Inl (Exn BaseExceptionOnly (ustr ''KeyboardInterrupt'')), [])
   \<and> snd (scan_receipt (stub_world (Inr (Some fenced_reply))) stub_process stub_call
            \<lparr>content_type = Some (ustr ''image/png''), body = []\<rparr>)
       = [ReadUpload, ClientInit (ustr ''secret'')]"
proof -
  let ?w = "stub_world (Inr (Some fenced_reply))"
  let ?stop = "Exn BaseExceptionOnly (ustr ''KeyboardInterrupt'')"
  let ?w' = "?w\<lparr>pil_verify := (\<lambda>i b. Some ?stop)\<rparr>"
  let ?f = "\<lparr>content_type = Some (ustr ''image/png''), body = []\<rparr>"
  let ?refusal = "Exn OtherException
                    (ustr ''cannot identify image file <_io.BytesIO object at 140231>'')"
  have pil: "pil_verify ?w (bytesio_id stub_call) [] = Some ?refusal"
    by (simp add: stub_world_simps stub_call_def ustr_def)
  have pil': "pil_verify ?w' (bytesio_id stub_call) [] = Some ?stop"
    by simp
  have ex: "isinstance_Exception ?refusal" and nex: "\<not> isinstance_Exception ?stop"
    by (simp_all add: isinstance_Exception_def)
  have ct: "content_type ?f = Some (ustr ''image/png'')" "body ?f = []"
    by simp_all
  have al: "ustr ''image/png'' \<in> set allowed_types"
    by (simp add: allowed_types_def)
  have key: "api_key_of stub_process = ustr ''secret''"
    by (simp add: api_key_of_def stub_process_def Settings_defaults_def) (simp add: ustr_def)
  note a = parse_receipt_invalid_image
    [OF pil, of stub_service "ustr ''image/png''", THEN conjunct1, rule_format, OF ex]
  note b = parse_receipt_invalid_image
    [OF pil', of stub_service "ustr ''image/png''", THEN conjunct2, THEN conjunct1, rule_format,
     OF nex]
  note d = parse_receipt_invalid_image
    [OF pil, of _ "ustr ''image/png''" ?f stub_process, THEN conjunct2, THEN conjunct2,
     THEN conjunct1, rule_format, OF ct(1) al ct(2)]
  from a b d key show ?thesis
    by (simp add: ustr_def)
qed

section \<open>The scan endpoint\<close>

lemma invalid_file_type_eq:
  "invalid_file_type
     = HTTPException 400
         (ustr ''Invalid file type. Allowed types: image/jpeg, image/png, image/webp, image/heic'')"
  by (simp add: invalid_file_type_def allowed_types_def ustr_def)

lemma scan_receipt_rejected:
  "content_type file \<notin> Some ` set allowed_types \<Longrightarrow>
   scan_receipt w p c file = (Inl invalid_file_type, [])"
  by (auto simp: scan_receipt_def split: option.splits)

lemma scan_receipt_accepted:
  "content_type file = Some ct \<Longrightarrow> ct \<in> set allowed_types \<Longrightarrow>
   scan_receipt w p c file =
     (case genai_Client w (api_key_of p) of
        Some e \<Rightarrow> (Inl (http_error e), [ReadUpload, ClientInit (api_key_of p)])
      | None \<Rightarrow>
          (case parse_receipt w \<lparr>client = api_key_of p, model_name = ustr ''gemini-2.5-flash''\<rparr>
                  c (body file) ct of
             (Inl e, t2) \<Rightarrow> (Inl (http_error e), ReadUpload # ClientInit (api_key_of p) # t2)
           | (Inr result, t2) \<Rightarrow> (Inr result, ReadUpload # ClientInit (api_key_of p) # t2)))"
  by (simp add: scan_receipt_def GeminiService_init_def Let_def
           split: option.splits prod.splits sum.splits)

text \<open>
  C4. A request whose declared content type is none of the four allowed ones, or that
  declares none, is answered with status 400 and the fixed message, and the handler has
  done nothing else: the upload is not read, no client is built and no upstream call is
  made. A request that declares one of the four goes on: the handler reads the upload
  and builds the client.
\<close>

theorem scan_receipt_content_type_check:
  "(content_type file \<notin> {Some (ustr ''image/jpeg''), Some (ustr ''image/png''),
                         Some (ustr ''image/webp''), Some (ustr ''image/heic'')} \<longrightarrow>
      scan_receipt w p c file
        = (Inl (HTTPException 400
              (ustr ''Invalid file type. Allowed types: image/jpeg, image/png, image/webp, image/heic'')),
           []))
   \<and> (content_type file \<in> {Some (ustr ''image/jpeg''), Some (ustr ''image/png''),
                           Some (ustr ''image/webp''), Some (ustr ''image/heic'')} \<longrightarrow>
      take 2 (snd (scan_receipt w p c file)) = [ReadUpload, ClientInit (api_key_of p)])"
proof -
  let ?A = "{Some (ustr ''image/jpeg''), Some (ustr ''image/png''),
             Some (ustr ''image/webp''), Some (ustr ''image/heic'')}"
  have A: "?A = Some ` set allowed_types"
    by (simp add: allowed_types_def)
  have c1: "content_type file \<notin> ?A \<longrightarrow>
      scan_receipt w p c file
        = (Inl (HTTPException 400
              (ustr ''Invalid file type. Allowed types: image/jpeg, image/png, image/webp, image/heic'')),
           [])"
  proof
    assume "content_type file \<notin> ?A"
    then have "content_type file \<notin> Some ` set allowed_types"
      unfolding A .
    from scan_receipt_rejected [OF this] show
      "scan_receipt w p c file
        = (Inl (HTTPException 400
              (ustr ''Invalid file type. Allowed types: image/jpeg, image/png, image/webp, image/heic'')),
           [])"
      by (simp add: invalid_file_type_eq)
  qed
  have c2: "take 2 (snd (scan_receipt w p c file)) = [ReadUpload, ClientInit (api_key_of p)]"
    if "content_type file \<in> ?A"
  proof -
    from that obtain ct where ct: "content_type file = Some ct" "ct \<in> set allowed_types"
      unfolding A by auto
    show ?thesis
      by (simp add: scan_receipt_accepted [OF ct] split: option.splits sum.splits prod.splits)
  qed
  from c1 c2 show ?thesis by blast
qed

theorem scan_receipt_content_type_check_witness:
  "scan_receipt (stub_world (Inr (Some fenced_reply))) stub_process stub_call
       \<lparr>content_type = Some (ustr ''application/pdf''), body = [37, 80, 68, 70]\<rparr>
     = (Inl (HTTPException 400
           (ustr ''Invalid file type. Allowed types: image/jpeg, image/png, image/webp, image/heic'')),
        [])
   \<and> scan_receipt (stub_world (Inr (Some fenced_reply))) stub_process stub_call
       \<lparr>content_type = None, body = [137, 80, 78, 71]\<rparr>
     = (Inl (HTTPException 400
           (ustr ''Invalid file type. Allowed types: image/jpeg, image/png, image/webp, image/heic'')),
        [])
   \<and> take 2 (snd (scan_receipt (stub_world (Inr (Some fenced_reply))) stub_process stub_call png_upload))
     = [ReadUpload, ClientInit (ustr ''secret'')]"
proof -
  let ?w = "stub_world (Inr (Some fenced_reply))"
  let ?pdf = "\<lparr>content_type = Some (ustr ''application/pdf''), body = [37, 80, 68, 70]\<rparr>"
  let ?none = "\<lparr>content_type = None, body = [137, 80, 78, 71]\<rparr> :: UploadFile"
  have key: "api_key_of stub_process = ustr ''secret''"
    by (simp add: api_key_of_def stub_process_def Settings_defaults_def) (simp add: ustr_def)
  have a: "content_type ?pdf \<notin> {Some (ustr ''image/jpeg''), Some (ustr ''image/png''),
             Some (ustr ''image/webp''), Some (ustr ''image/heic'')}"
    by (simp add: ustr_def)
  have b: "content_type ?none \<notin> {Some (ustr ''image/jpeg''), Some (ustr ''image/png''),
             Some (ustr ''image/webp''), Some (ustr ''image/heic'')}"
    by simp
  have c: "content_type png_upload \<in> {Some (ustr ''image/jpeg''), Some (ustr ''image/png''),
             Some (ustr ''image/webp''), Some (ustr ''image/heic'')}"
    by (simp add: png_upload_def)
  from scan_receipt_content_type_check [of ?pdf ?w stub_process stub_call] a
  have r1: "scan_receipt ?w stub_process stub_call ?pdf
     = (Inl (HTTPException 400
           (ustr ''Invalid file type. Allowed types: image/jpeg, image/png, image/webp, image/heic'')),
        [])"
    by blast
  from scan_receipt_content_type_check [of ?none ?w stub_process stub_call] b
  have r2: "scan_receipt ?w stub_process stub_call ?none
     = (Inl (HTTPException 400
           (ustr ''Invalid file type. Allowed types: image/jpeg, image/png, image/webp, image/heic'')),
        [])"
    by blast
  from scan_receipt_content_type_check [of png_upload ?w stub_process stub_call] c
  have r3: "take 2 (snd (scan_receipt ?w stub_process stub_call png_upload))
     = [ReadUpload, ClientInit (api_key_of stub_process)]"
    by blast
  from r1 r2 r3 key show ?thesis by simp
qed

lemma http_error_cases:
  "isinstance_ValueError e \<Longrightarrow> http_error e = HTTPException 400 (message e)"
  "\<not> isinstance_ValueError e \<Longrightarrow> isinstance_Exception e \<Longrightarrow>
     http_error e = HTTPException 500 (ustr ''Failed to process receipt: '' @ message e)"
  "\<not> isinstance_Exception e \<Longrightarrow> http_error e = Uncaught e"
  by (auto simp: http_error_def isinstance_ValueError_def isinstance_Exception_def)

lemma http_error_ValueError:
  "http_error (Exn ValueError m) = HTTPException 400 m"
  by (simp add: http_error_def isinstance_ValueError_def)

lemma http_error_RuntimeError:
  "http_error (Exn RuntimeError m) = HTTPException 500 (ustr ''Failed to process receipt: '' @ m)"
  by (simp add: http_error_def isinstance_ValueError_def isinstance_Exception_def)

lemma scan_receipt_parse_failed:
  assumes "content_type file = Some ct" and "ct \<in> set allowed_types"
    and "genai_Client w (api_key_of p) = None"
    and "fst (parse_receipt w \<lparr>client = api_key_of p, model_name = ustr ''gemini-2.5-flash''\<rparr>
                c (body file) ct) = Inl e"
  shows "fst (scan_receipt w p c file) = Inl (http_error e)"
  using assms(3,4)
  by (auto simp add: scan_receipt_accepted [OF assms(1,2)] split: prod.splits sum.splits)

lemma scan_receipt_parse_returned:
  assumes "content_type file = Some ct" and "ct \<in> set allowed_types"
    and "genai_Client w (api_key_of p) = None"
    and "fst (parse_receipt w \<lparr>client = api_key_of p, model_name = ustr ''gemini-2.5-flash''\<rparr>
                c (body file) ct) = Inr result"
  shows "fst (scan_receipt w p c file) = Inr result"
  using assms(3,4)
  by (auto simp add: scan_receipt_accepted [OF assms(1,2)] split: prod.splits sum.splits)

text \<open>
  C5, as amended. The endpoint maps what is raised inside its \<^verbatim>\<open>try\<close> by class: a
  \<open>ValueError\<close> gives status 400 with the exception's message, every other
  \<^verbatim>\<open>Exception\<close> gives status 500 with the message behind the prefix
  \<^verbatim>\<open>Failed to process receipt: \<close>, and an exception outside \<^verbatim>\<open>Exception\<close> leaves the
  handler as it is. Of the exceptions \<open>parse_receipt\<close> raises, those that are an
  \<^verbatim>\<open>Exception\<close> are three, told apart by class and message prefix: the \<open>ValueError\<close> of an
  image the decoder refuses and the \<open>ValueError\<close> of a response that is not JSON, both
  answered with 400 and their message, and the \<open>RuntimeError\<close> that wraps every other
  exception of the upstream call and of the JSON decoder, answered with 500. An upstream
  call that itself raises a \<open>JSONDecodeError\<close> is reported as a response that is not JSON
  (400), a response without text as an upstream failure (500), and what the constructor of
  the client raises is mapped by its class like everything else (400 for a
  \<open>ValueError\<close>).
\<close>

theorem scan_receipt_error_mapping:
  assumes "content_type file = Some ct" and "ct \<in> set allowed_types"
  shows
  "(genai_Client w (api_key_of p) = None \<longrightarrow>
      pil_verify w (bytesio_id c) (body file) = Some d \<longrightarrow> isinstance_Exception d \<longrightarrow>
      fst (scan_receipt w p c file)
        = Inl (HTTPException 400 (ustr ''Invalid image file: '' @ message d)))
   \<and> (genai_Client w (api_key_of p) = None \<longrightarrow>
      pil_verify w (bytesio_id c) (body file) = None \<longrightarrow>
      generate_content w (api_key_of p) (ustr ''gemini-2.5-flash'') prompt (body file) ct
        = Inr (Some t) \<longrightarrow>
      json_loads w (strip_fences t) = Inl e \<longrightarrow>
      (isinstance_JSONDecodeError e \<longrightarrow>
         fst (scan_receipt w p c file)
           = Inl (HTTPException 400
                    (ustr ''Failed to parse Gemini response as JSON: '' @ message e)))
      \<and> (\<not> isinstance_JSONDecodeError e \<longrightarrow> isinstance_Exception e \<longrightarrow>
         fst (scan_receipt w p c file)
           = Inl (HTTPException 500
                    (ustr ''Failed to process receipt: '' @ ustr ''Gemini API error: ''
                     @ message e))))
   \<and> (genai_Client w (api_key_of p) = None \<longrightarrow>
      pil_verify w (bytesio_id c) (body file) = None \<longrightarrow>
      generate_content w (api_key_of p) (ustr ''gemini-2.5-flash'') prompt (body file) ct = Inl e \<longrightarrow>
      (isinstance_JSONDecodeError e \<longrightarrow>
         fst (scan_receipt w p c file)
           = Inl (HTTPException 400
                    (ustr ''Failed to parse Gemini response as JSON: '' @ message e)))
      \<and> (\<not> isinstance_JSONDecodeError e \<longrightarrow> isinstance_Exception e \<longrightarrow>
         fst (scan_receipt w p c file)
           = Inl (HTTPException 500
                    (ustr ''Failed to process receipt: '' @ ustr ''Gemini API error: ''
                     @ message e)))
      \<and> (\<not> isinstance_Exception e \<longrightarrow> fst (scan_receipt w p c file) = Inl (Uncaught e)))
   \<and> (genai_Client w (api_key_of p) = None \<longrightarrow>
      pil_verify w (bytesio_id c) (body file) = None \<longrightarrow>
      generate_content w (api_key_of p) (ustr ''gemini-2.5-flash'') prompt (body file) ct = Inr None \<longrightarrow>
      fst (scan_receipt w p c file)
        = Inl (HTTPException 500
                 (ustr ''Failed to process receipt: '' @ ustr ''Gemini API error: ''
                  @ message NoneType_strip)))
   \<and> (genai_Client w (api_key_of p) = None \<longrightarrow>
      fst (parse_receipt w \<lparr>client = api_key_of p, model_name = ustr ''gemini-2.5-flash''\<rparr>
             c (body file) ct) = Inl x \<longrightarrow>
      fst (scan_receipt w p c file) = Inl (http_error x)
      \<and> (isinstance_Exception x \<longrightarrow>
           (\<exists>r. x = Exn ValueError (ustr ''Invalid image file: '' @ r))
           \<or> (\<exists>m. x = Exn ValueError (ustr ''Failed to parse Gemini response as JSON: '' @ m))
           \<or> (\<exists>m. x = Exn RuntimeError (ustr ''Gemini API error: '' @ m))))
   \<and> (genai_Client w (api_key_of p) = Some x \<longrightarrow>
      fst (scan_receipt w p c file) = Inl (http_error x))
   \<and> (isinstance_ValueError x \<longrightarrow> http_error x = HTTPException 400 (message x))
   \<and> (\<not> isinstance_ValueError x \<longrightarrow> isinstance_Exception x \<longrightarrow>
      http_error x = HTTPException 500 (ustr ''Failed to process receipt: '' @ message x))
   \<and> (\<not> isinstance_Exception x \<longrightarrow> http_error x = Uncaught x)
   \<and> Exn ValueError (ustr ''Invalid image file: '' @ a)
       \<noteq> Exn ValueError (ustr ''Failed to parse Gemini response as JSON: '' @ b)
   \<and> Exn ValueError (ustr ''Invalid image file: '' @ a)
       \<noteq> Exn RuntimeError (ustr ''Gemini API error: '' @ g)
   \<and> Exn ValueError (ustr ''Failed to parse Gemini response as JSON: '' @ b)
       \<noteq> Exn RuntimeError (ustr ''Gemini API error: '' @ g)"
proof -
  let ?svc = "\<lparr>client = api_key_of p, model_name = ustr ''gemini-2.5-flash''\<rparr>"
  let ?parse = "parse_receipt w ?svc c (body file) ct"
  let ?r = "fst (scan_receipt w p c file)"
  let ?gen = "generate_content w (api_key_of p) (ustr ''gemini-2.5-flash'') prompt (body file) ct"
  note failed = scan_receipt_parse_failed [OF assms]
  have raised: "?r = Inl (http_error (except_clauses e))"
    if "genai_Client w (api_key_of p) = None" "fst ?parse = Inl (except_clauses e)" for e
    using failed [OF that] .
  have cls_json: "http_error (except_clauses e)
      = HTTPException 400 (ustr ''Failed to parse Gemini response as JSON: '' @ message e)"
    if "isinstance_JSONDecodeError e" for e
    using that by (simp add: except_clauses_cases http_error_ValueError)
  have cls_other: "http_error (except_clauses e)
      = HTTPException 500
          (ustr ''Failed to process receipt: '' @ ustr ''Gemini API error: '' @ message e)"
    if "\<not> isinstance_JSONDecodeError e" "isinstance_Exception e" for e
    using that by (simp add: except_clauses_cases http_error_RuntimeError)
  have cls_base: "http_error (except_clauses e) = Uncaught e" if "\<not> isinstance_Exception e" for e
    using that by (simp add: except_clauses_cases http_error_cases)
  have c1: "genai_Client w (api_key_of p) = None \<longrightarrow>
      pil_verify w (bytesio_id c) (body file) = Some d \<longrightarrow> isinstance_Exception d \<longrightarrow>
      ?r = Inl (HTTPException 400 (ustr ''Invalid image file: '' @ message d))"
  proof (intro impI)
    assume k: "genai_Client w (api_key_of p) = None"
      and v: "pil_verify w (bytesio_id c) (body file) = Some d" and ex: "isinstance_Exception d"
    have "fst ?parse = Inl (Exn ValueError (ustr ''Invalid image file: '' @ message d))"
      using ex by (simp add: parse_receipt_invalid [OF v] except_invalid_image_def)
    from failed [OF k this] show
      "?r = Inl (HTTPException 400 (ustr ''Invalid image file: '' @ message d))"
      by (simp add: http_error_ValueError)
  qed
  have c2: "genai_Client w (api_key_of p) = None \<longrightarrow>
      pil_verify w (bytesio_id c) (body file) = None \<longrightarrow>
      ?gen = Inr (Some t) \<longrightarrow>
      json_loads w (strip_fences t) = Inl e \<longrightarrow>
      (isinstance_JSONDecodeError e \<longrightarrow>
         ?r = Inl (HTTPException 400
                    (ustr ''Failed to parse Gemini response as JSON: '' @ message e)))
      \<and> (\<not> isinstance_JSONDecodeError e \<longrightarrow> isinstance_Exception e \<longrightarrow>
         ?r = Inl (HTTPException 500
                    (ustr ''Failed to process receipt: '' @ ustr ''Gemini API error: ''
                     @ message e)))"
  proof (intro impI)
    assume k: "genai_Client w (api_key_of p) = None"
      and v: "pil_verify w (bytesio_id c) (body file) = None"
      and g: "?gen = Inr (Some t)" and j: "json_loads w (strip_fences t) = Inl e"
    have "fst ?parse = Inl (except_clauses e)"
      using g j by (simp add: parse_receipt_text [OF v])
    from raised [OF k this] show
      "(isinstance_JSONDecodeError e \<longrightarrow>
         ?r = Inl (HTTPException 400
                    (ustr ''Failed to parse Gemini response as JSON: '' @ message e)))
      \<and> (\<not> isinstance_JSONDecodeError e \<longrightarrow> isinstance_Exception e \<longrightarrow>
         ?r = Inl (HTTPException 500
                    (ustr ''Failed to process receipt: '' @ ustr ''Gemini API error: ''
                     @ message e)))"
      using cls_json [of e] cls_other [of e] by simp
  qed
  have c3: "genai_Client w (api_key_of p) = None \<longrightarrow>
      pil_verify w (bytesio_id c) (body file) = None \<longrightarrow>
      ?gen = Inl e \<longrightarrow>
      (isinstance_JSONDecodeError e \<longrightarrow>
         ?r = Inl (HTTPException 400
                    (ustr ''Failed to parse Gemini response as JSON: '' @ message e)))
      \<and> (\<not> isinstance_JSONDecodeError e \<longrightarrow> isinstance_Exception e \<longrightarrow>
         ?r = Inl (HTTPException 500
                    (ustr ''Failed to process receipt: '' @ ustr ''Gemini API error: ''
                     @ message e)))
      \<and> (\<not> isinstance_Exception e \<longrightarrow> ?r = Inl (Uncaught e))"
  proof (intro impI)
    assume k: "genai_Client w (api_key_of p) = None"
      and v: "pil_verify w (bytesio_id c) (body file) = None"
      and g: "?gen = Inl e"
    have "fst ?parse = Inl (except_clauses e)"
      using g by (simp add: parse_receipt_upstream [OF v])
    from raised [OF k this] show
      "(isinstance_JSONDecodeError e \<longrightarrow>
         ?r = Inl (HTTPException 400
                    (ustr ''Failed to parse Gemini response as JSON: '' @ message e)))
      \<and> (\<not> isinstance_JSONDecodeError e \<longrightarrow> isinstance_Exception e \<longrightarrow>
         ?r = Inl (HTTPException 500
                    (ustr ''Failed to process receipt: '' @ ustr ''Gemini API error: ''
                     @ message e)))
      \<and> (\<not> isinstance_Exception e \<longrightarrow> ?r = Inl (Uncaught e))"
      using cls_json [of e] cls_other [of e] cls_base [of e] by simp
  qed
  have c4: "genai_Client w (api_key_of p) = None \<longrightarrow>
      pil_verify w (bytesio_id c) (body file) = None \<longrightarrow>
      ?gen = Inr None \<longrightarrow>
      ?r = Inl (HTTPException 500
                 (ustr ''Failed to process receipt: '' @ ustr ''Gemini API error: ''
                  @ message NoneType_strip))"
  proof (intro impI)
    assume k: "genai_Client w (api_key_of p) = None"
      and v: "pil_verify w (bytesio_id c) (body file) = None"
      and g: "?gen = Inr None"
    have n: "\<not> isinstance_JSONDecodeError NoneType_strip" "isinstance_Exception NoneType_strip"
      by (simp_all add: NoneType_strip_def isinstance_JSONDecodeError_def isinstance_Exception_def)
    have "fst ?parse = Inl (except_clauses NoneType_strip)"
      using g by (simp add: parse_receipt_no_text [OF v])
    from raised [OF k this] show
      "?r = Inl (HTTPException 500
                 (ustr ''Failed to process receipt: '' @ ustr ''Gemini API error: ''
                  @ message NoneType_strip))"
      using cls_other [OF n] by simp
  qed
  have c5: "genai_Client w (api_key_of p) = None \<longrightarrow>
      fst ?parse = Inl x \<longrightarrow>
      ?r = Inl (http_error x)
      \<and> (isinstance_Exception x \<longrightarrow>
           (\<exists>r. x = Exn ValueError (ustr ''Invalid image file: '' @ r))
           \<or> (\<exists>m. x = Exn ValueError (ustr ''Failed to parse Gemini response as JSON: '' @ m))
           \<or> (\<exists>m. x = Exn RuntimeError (ustr ''Gemini API error: '' @ m)))"
    using failed parse_receipt_raises [of w ?svc c "body file" ct x] by blast
  have c6: "genai_Client w (api_key_of p) = Some x \<longrightarrow> ?r = Inl (http_error x)"
    by (simp add: scan_receipt_accepted [OF assms])
  have c7: "isinstance_ValueError x \<longrightarrow> http_error x = HTTPException 400 (message x)"
    and c8: "\<not> isinstance_ValueError x \<longrightarrow> isinstance_Exception x \<longrightarrow>
      http_error x = HTTPException 500 (ustr ''Failed to process receipt: '' @ message x)"
    and c9: "\<not> isinstance_Exception x \<longrightarrow> http_error x = Uncaught x"
    by (simp_all add: http_error_cases)
  have c10: "Exn ValueError (ustr ''Invalid image file: '' @ a)
       \<noteq> Exn ValueError (ustr ''Failed to parse Gemini response as JSON: '' @ b)"
    and c11: "Exn ValueError (ustr ''Invalid image file: '' @ a)
       \<noteq> Exn RuntimeError (ustr ''Gemini API error: '' @ g)"
    and c12: "Exn ValueError (ustr ''Failed to parse Gemini response as JSON: '' @ b)
       \<noteq> Exn RuntimeError (ustr ''Gemini API error: '' @ g)"
    by (simp_all add: ustr_def)
  from c1 c2 c3 c4 c5 c6 c7 c8 c9 c10 c11 c12 show ?thesis by (intro conjI)
qed

text \<open>
  The claim as it was stated fails in three ways. A \<open>ValueError\<close> of the client's
  constructor (no API key is configured) is neither an invalid image nor a response that
  is not JSON, and is answered with 400, not 500. An upstream call that raises a
  \<open>JSONDecodeError\<close> is answered exactly as a reply that is not JSON, so the two are
  not told apart. An exception outside \<^verbatim>\<open>Exception\<close> is answered with no status at all:
  it leaves the handler.
\<close>

theorem scan_receipt_error_mapping_counterexample:
  "fst (scan_receipt (stub_world (Inr (Some fenced_reply)))
          \<lparr>settings = Settings_defaults, os_environ = Map.empty\<rparr> stub_call png_upload)
     = Inl (HTTPException 400 (ustr ''Missing key inputs argument!''))
   \<and> fst (scan_receipt
            (stub_world (Inl (Exn JSONDecodeError (ustr ''Expecting value: line 1 column 1 (char 0)''))))
            stub_process stub_call png_upload)
     = fst (scan_receipt (stub_world (Inr (Some (ustr ''Sorry, I cannot read this receipt.''))))
              stub_process stub_call png_upload)
   \<and> fst (scan_receipt (stub_world (Inl (Exn BaseExceptionOnly (ustr ''CancelledError''))))
            stub_process stub_call png_upload)
     = Inl (Uncaught (Exn BaseExceptionOnly (ustr ''CancelledError'')))"
proof -
  let ?nokey = "\<lparr>settings = Settings_defaults, os_environ = Map.empty\<rparr>"
  let ?decode = "Exn JSONDecodeError (ustr ''Expecting value: line 1 column 1 (char 0)'')"
  let ?cancel = "Exn BaseExceptionOnly (ustr ''CancelledError'')"
  let ?t = "ustr ''Sorry, I cannot read this receipt.''"
  let ?svc = "\<lparr>client = api_key_of stub_process, model_name = ustr ''gemini-2.5-flash''\<rparr>"
  have ctp: "content_type png_upload = Some (ustr ''image/png'')"
    by (simp add: png_upload_def)
  have al: "ustr ''image/png'' \<in> set allowed_types"
    by (simp add: allowed_types_def)
  have nokey: "api_key_of ?nokey = []"
    by (simp add: api_key_of_def Settings_defaults_def)
  have key: "api_key_of stub_process = ustr ''secret''"
    by (simp add: api_key_of_def stub_process_def Settings_defaults_def) (simp add: ustr_def)
  have k: "genai_Client (stub_world r) (api_key_of stub_process) = None" for r
    unfolding key by (simp add: stub_world_simps ustr_def)
  have v: "pil_verify (stub_world r) (bytesio_id stub_call) (body png_upload) = None" for r
    by (simp add: stub_world_simps png_upload_def)
  have g: "generate_content (stub_world r) (client ?svc) (model_name ?svc)
             prompt (body png_upload) (ustr ''image/png'') = r" for r
    by (simp add: stub_world_simps)
  have st: "strip_fences ?t = ?t"
    by (rule strip_fences_unfenced) (simp_all add: ustr_def isspace_def str_startswith_def)
  have j: "json_loads (stub_world (Inr (Some ?t))) (strip_fences ?t) = Inl ?decode"
    unfolding st stub_world_simps by (rule stub_json_loads_refuses) (simp_all add: ustr_def)
  have a: "fst (scan_receipt (stub_world (Inr (Some fenced_reply))) ?nokey stub_call png_upload)
     = Inl (HTTPException 400 (ustr ''Missing key inputs argument!''))"
    by (simp add: scan_receipt_accepted [OF ctp al] nokey stub_world_simps http_error_ValueError)
  have p1: "fst (parse_receipt (stub_world (Inl ?decode)) ?svc stub_call (body png_upload)
                  (ustr ''image/png'')) = Inl (except_clauses ?decode)"
    by (simp add: parse_receipt_upstream [OF v g])
  have p2: "fst (parse_receipt (stub_world (Inr (Some ?t))) ?svc stub_call (body png_upload)
                  (ustr ''image/png'')) = Inl (except_clauses ?decode)"
    by (simp add: parse_receipt_text [OF v g] j)
  have p3: "fst (parse_receipt (stub_world (Inl ?cancel)) ?svc stub_call (body png_upload)
                  (ustr ''image/png'')) = Inl (except_clauses ?cancel)"
    by (simp add: parse_receipt_upstream [OF v g])
  have b: "fst (scan_receipt (stub_world (Inl ?decode)) stub_process stub_call png_upload)
     = fst (scan_receipt (stub_world (Inr (Some ?t))) stub_process stub_call png_upload)"
    by (simp add: scan_receipt_parse_failed [OF ctp al k p1]
          scan_receipt_parse_failed [OF ctp al k p2])
  have "http_error (except_clauses ?cancel) = Uncaught ?cancel"
    by (simp add: except_clauses_def http_error_def isinstance_JSONDecodeError_def
          isinstance_ValueError_def isinstance_Exception_def)
  then have d: "fst (scan_receipt (stub_world (Inl ?cancel)) stub_process stub_call png_upload)
     = Inl (Uncaught ?cancel)"
    by (simp add: scan_receipt_parse_failed [OF ctp al k p3])
  from a b d show ?thesis
    by (intro conjI)
qed

theorem scan_receipt_error_mapping_witness:
  "fst (scan_receipt (stub_world (Inr (Some fenced_reply))) stub_process stub_call
          \<lparr>content_type = Some (ustr ''image/png''), body = []\<rparr>)
     = Inl (HTTPException 400
         (ustr ''Invalid image file: cannot identify image file <_io.BytesIO object at 140231>''))
   \<and> fst (scan_receipt (stub_world (Inr (Some (ustr ''Sorry, I cannot read this receipt.''))))
          stub_process stub_call png_upload)
     = Inl (HTTPException 400
         (ustr ''Failed to parse Gemini response as JSON: Expecting value: line 1 column 1 (char 0)''))
   \<and> fst (scan_receipt (stub_world (Inr (Some deep_reply))) stub_process stub_call png_upload)
     = Inl (HTTPException 500
         (ustr ''Failed to process receipt: Gemini API error: maximum recursion depth exceeded while decoding a JSON array from a unicode string''))
   \<and> fst (scan_receipt (stub_world (Inl (Exn OtherException (ustr ''429 RESOURCE_EXHAUSTED''))))
          stub_process stub_call png_upload)
     = Inl (HTTPException 500
         (ustr ''Failed to process receipt: Gemini API error: 429 RESOURCE_EXHAUSTED''))
   \<and> fst (scan_receipt (stub_world (Inl (Exn JSONDecodeError (ustr ''Extra data''))))
          stub_process stub_call png_upload)
     = Inl (HTTPException 400 (ustr ''Failed to parse Gemini response as JSON: Extra data''))
   \<and> fst (scan_receipt (stub_world (Inl (Exn BaseExceptionOnly (ustr ''CancelledError''))))
          stub_process stub_call png_upload)
     = Inl (Uncaught (Exn BaseExceptionOnly (ustr ''CancelledError'')))
   \<and> fst (scan_receipt (stub_world (Inr None)) stub_process stub_call png_upload)
     = Inl (HTTPException 500
         (ustr ''Failed to process receipt: Gemini API error: '' @ message NoneType_strip))
   \<and> fst (scan_receipt (stub_world (Inr (Some fenced_reply)))
          \<lparr>settings = Settings_defaults, os_environ = Map.empty\<rparr> stub_call png_upload)
     = Inl (HTTPException 400 (ustr ''Missing key inputs argument!''))
   \<and> http_error (Exn OtherException (ustr ''429 RESOURCE_EXHAUSTED''))
     = HTTPException 500 (ustr ''Failed to process receipt: 429 RESOURCE_EXHAUSTED'')
   \<and> http_error (Exn BaseExceptionOnly (ustr ''CancelledError''))
     = Uncaught (Exn BaseExceptionOnly (ustr ''CancelledError''))
   \<and> fst (scan_receipt (stub_world (Inr (Some fenced_reply))) stub_process stub_call
          \<lparr>content_type = Some (ustr ''image/png''), body = []\<rparr>)
     = Inl (http_error (Exn ValueError
         (ustr ''Invalid image file: cannot identify image file <_io.BytesIO object at 140231>'')))"
proof -
  let ?png = "ustr ''image/png''"
  let ?bad = "\<lparr>content_type = Some ?png, body = []\<rparr>"
  let ?nokey = "\<lparr>settings = Settings_defaults, os_environ = Map.empty\<rparr>"
  let ?sorry_text = "ustr ''Sorry, I cannot read this receipt.''"
  let ?w1 = "stub_world (Inr (Some fenced_reply))"
  let ?w2 = "stub_world (Inr (Some ?sorry_text))"
  let ?w2b = "stub_world (Inr (Some deep_reply))"
  let ?quota = "Exn OtherException (ustr ''429 RESOURCE_EXHAUSTED'')"
  let ?w3 = "stub_world (Inl ?quota)"
  let ?extra = "Exn JSONDecodeError (ustr ''Extra data'')"
  let ?w5 = "stub_world (Inl ?extra)"
  let ?cancel = "Exn BaseExceptionOnly (ustr ''CancelledError'')"
  let ?w7 = "stub_world (Inl ?cancel)"
  let ?w6 = "stub_world (Inr None) :: json world"
  let ?missing = "Exn ValueError (ustr ''Missing key inputs argument!'')"
  let ?decode = "Exn JSONDecodeError (ustr ''Expecting value: line 1 column 1 (char 0)'')"
  let ?depth = "Exn RecursionError
    (ustr ''maximum recursion depth exceeded while decoding a JSON array from a unicode string'')"
  let ?refusal = "Exn OtherException
    (ustr ''cannot identify image file <_io.BytesIO object at 140231>'')"
  let ?inv = "Exn ValueError (ustr ''Invalid image file: '' @ message ?refusal)"
  have ctb: "content_type ?bad = Some ?png"
    by simp
  have ctp: "content_type png_upload = Some ?png"
    by (simp add: png_upload_def)
  have al: "?png \<in> set allowed_types"
    by (simp add: allowed_types_def)
  have key: "api_key_of stub_process = ustr ''secret''"
    by (simp add: api_key_of_def stub_process_def Settings_defaults_def) (simp add: ustr_def)
  have nokey: "api_key_of ?nokey = []"
    by (simp add: api_key_of_def Settings_defaults_def)
  have k: "genai_Client (stub_world r) (api_key_of stub_process) = None" for r
    unfolding key by (simp add: stub_world_simps ustr_def)
  have k0: "genai_Client ?w1 (api_key_of ?nokey) = Some ?missing"
    unfolding nokey by (simp add: stub_world_simps)
  have v1: "pil_verify ?w1 (bytesio_id stub_call) (body ?bad) = Some ?refusal"
    by (simp add: stub_world_simps stub_call_def ustr_def)
  have v: "pil_verify (stub_world r) (bytesio_id stub_call) (body png_upload) = None" for r
    by (simp add: stub_world_simps png_upload_def)
  have g: "generate_content (stub_world r) (api_key_of stub_process) (ustr ''gemini-2.5-flash'')
             prompt (body png_upload) ?png = r" for r
    by (simp add: stub_world_simps)
  have st: "strip_fences ?sorry_text = ?sorry_text"
    by (rule strip_fences_unfenced) (simp_all add: ustr_def isspace_def str_startswith_def)
  have j: "json_loads ?w2 (strip_fences ?sorry_text) = Inl ?decode"
    unfolding st stub_world_simps by (rule stub_json_loads_refuses) (simp_all add: ustr_def)
  have jb: "json_loads ?w2b (strip_fences deep_reply) = Inl ?depth"
    by (simp add: strip_fences_deep_reply stub_world_simps stub_json_loads_deep)
  have cls:
    "isinstance_Exception ?refusal"
    "isinstance_JSONDecodeError ?decode"
    "\<not> isinstance_JSONDecodeError ?depth" "isinstance_Exception ?depth"
    "\<not> isinstance_JSONDecodeError ?quota" "isinstance_Exception ?quota"
    "isinstance_JSONDecodeError ?extra"
    "\<not> isinstance_Exception ?cancel"
    "isinstance_ValueError ?missing"
    "\<not> isinstance_ValueError ?quota"
    by (simp_all add: isinstance_JSONDecodeError_def isinstance_Exception_def
          isinstance_ValueError_def)
  note r1 = scan_receipt_error_mapping
    [of ?bad ?png ?w1 stub_process stub_call ?refusal,
     OF ctb al, THEN conjunct1, rule_format, OF k v1 cls(1)]
  note r2 = scan_receipt_error_mapping
    [of png_upload ?png ?w2 stub_process stub_call _ ?sorry_text ?decode,
     OF ctp al, THEN conjunct2, THEN conjunct1, rule_format, OF k v g j, THEN conjunct1,
     rule_format, OF cls(2)]
  note r2b = scan_receipt_error_mapping
    [of png_upload ?png ?w2b stub_process stub_call _ deep_reply ?depth,
     OF ctp al, THEN conjunct2, THEN conjunct1, rule_format, OF k v g jb, THEN conjunct2,
     rule_format, OF cls(3,4)]
  note r3 = scan_receipt_error_mapping
    [of png_upload ?png ?w3 stub_process stub_call _ _ ?quota,
     OF ctp al, THEN conjunct2, THEN conjunct2, THEN conjunct1, rule_format, OF k v g,
     THEN conjunct2, THEN conjunct1, rule_format, OF cls(5,6)]
  note r3a = scan_receipt_error_mapping
    [of png_upload ?png ?w5 stub_process stub_call _ _ ?extra,
     OF ctp al, THEN conjunct2, THEN conjunct2, THEN conjunct1, rule_format, OF k v g,
     THEN conjunct1, rule_format, OF cls(7)]
  note r3c = scan_receipt_error_mapping
    [of png_upload ?png ?w7 stub_process stub_call _ _ ?cancel,
     OF ctp al, THEN conjunct2, THEN conjunct2, THEN conjunct1, rule_format, OF k v g,
     THEN conjunct2, THEN conjunct2, rule_format, OF cls(8)]
  note r4 = scan_receipt_error_mapping
    [of png_upload ?png ?w6 stub_process stub_call,
     OF ctp al, THEN conjunct2, THEN conjunct2, THEN conjunct2, THEN conjunct1, rule_format,
     OF k v g]
  have pf: "fst (parse_receipt ?w1
                   \<lparr>client = api_key_of stub_process, model_name = ustr ''gemini-2.5-flash''\<rparr>
                   stub_call (body ?bad) ?png) = Inl ?inv"
    using cls(1) parse_receipt_invalid [OF v1] by (simp add: except_invalid_image_def)
  note r5 = scan_receipt_error_mapping
    [of ?bad ?png ?w1 stub_process stub_call _ _ _ ?inv,
     OF ctb al, THEN conjunct2, THEN conjunct2, THEN conjunct2, THEN conjunct2, THEN conjunct1,
     rule_format, OF k pf, THEN conjunct1]
  note r6 = scan_receipt_error_mapping
    [of png_upload ?png ?w1 ?nokey stub_call _ _ _ ?missing,
     OF ctp al, THEN conjunct2, THEN conjunct2, THEN conjunct2, THEN conjunct2, THEN conjunct2,
     THEN conjunct1, rule_format, OF k0]
  note r7 = scan_receipt_error_mapping
    [of png_upload ?png ?w1 ?nokey stub_call _ _ _ ?missing,
     OF ctp al, THEN conjunct2, THEN conjunct2, THEN conjunct2, THEN conjunct2, THEN conjunct2,
     THEN conjunct2, THEN conjunct1, rule_format, OF cls(9)]
  note r8 = scan_receipt_error_mapping
    [of png_upload ?png ?w1 stub_process stub_call _ _ _ ?quota,
     OF ctp al, THEN conjunct2, THEN conjunct2, THEN conjunct2, THEN conjunct2, THEN conjunct2,
     THEN conjunct2, THEN conjunct2, THEN conjunct1, rule_format, OF cls(10) cls(6)]
  note r9 = scan_receipt_error_mapping
    [of png_upload ?png ?w1 stub_process stub_call _ _ _ ?cancel,
     OF ctp al, THEN conjunct2, THEN conjunct2, THEN conjunct2, THEN conjunct2, THEN conjunct2,
     THEN conjunct2, THEN conjunct2, THEN conjunct2, THEN conjunct1, rule_format, OF cls(8)]
  from r1 r2 r2b r3 r3a r3c r4 r5 r6 r7 r8 r9 show ?thesis
    by (simp add: ustr_def)
qed

text \<open>
  C6, as amended. When the content type is allowed, the client is built, the image is
  accepted, the upstream call answers with a text and the decoder returns an object for
  what is left of it, the handler returns that object, whatever it is: the handler and
  the client are polymorphic in the type of decoded objects, so neither can look into
  one. More generally the handler returns what \<open>parse_receipt\<close> returns. What the
  framework makes of the returned object is outside this code.
\<close>

theorem scan_receipt_returns_parsed_object:
  assumes "content_type file = Some ct" and "ct \<in> set allowed_types"
    and "genai_Client w (api_key_of p) = None"
  shows
  "(pil_verify w (bytesio_id c) (body file) = None \<longrightarrow>
      generate_content w (api_key_of p) (ustr ''gemini-2.5-flash'') prompt (body file) ct
        = Inr (Some t) \<longrightarrow>
      json_loads w (strip_fences t) = Inr obj \<longrightarrow>
      scan_receipt w p c file
        = (Inr obj,
           [ReadUpload, ClientInit (api_key_of p),
            GenerateContent (api_key_of p) (ustr ''gemini-2.5-flash'') prompt (body file) ct]))
   \<and> (fst (parse_receipt w \<lparr>client = api_key_of p, model_name = ustr ''gemini-2.5-flash''\<rparr>
             c (body file) ct) = Inr result \<longrightarrow>
      fst (scan_receipt w p c file) = Inr result)"
proof -
  let ?svc = "\<lparr>client = api_key_of p, model_name = ustr ''gemini-2.5-flash''\<rparr>"
  have c1: "pil_verify w (bytesio_id c) (body file) = None \<longrightarrow>
      generate_content w (api_key_of p) (ustr ''gemini-2.5-flash'') prompt (body file) ct
        = Inr (Some t) \<longrightarrow>
      json_loads w (strip_fences t) = Inr obj \<longrightarrow>
      scan_receipt w p c file
        = (Inr obj,
           [ReadUpload, ClientInit (api_key_of p),
            GenerateContent (api_key_of p) (ustr ''gemini-2.5-flash'') prompt (body file) ct])"
  proof (intro impI)
    assume v: "pil_verify w (bytesio_id c) (body file) = None"
      and g: "generate_content w (api_key_of p) (ustr ''gemini-2.5-flash'') prompt (body file) ct
                = Inr (Some t)"
      and j: "json_loads w (strip_fences t) = Inr obj"
    have "parse_receipt w ?svc c (body file) ct
            = (Inr obj,
               [GenerateContent (api_key_of p) (ustr ''gemini-2.5-flash'') prompt (body file) ct])"
      using g j by (simp add: parse_receipt_text [OF v])
    then show "scan_receipt w p c file
        = (Inr obj,
           [ReadUpload, ClientInit (api_key_of p),
            GenerateContent (api_key_of p) (ustr ''gemini-2.5-flash'') prompt (body file) ct])"
      using assms(3) by (simp add: scan_receipt_accepted [OF assms(1,2)])
  qed
  have c2: "fst (parse_receipt w ?svc c (body file) ct) = Inr result \<longrightarrow>
      fst (scan_receipt w p c file) = Inr result"
    using scan_receipt_parse_returned [OF assms] by blast
  from c1 c2 show ?thesis by (intro conjI)
qed

text \<open>
  The claim as it was stated fails on a reply that is a structurally valid JSON object and
  for which the decoder returns no object: on a number of 5000 digits \<^verbatim>\<open>json.loads\<close>
  raises a \<open>ValueError\<close>, which \<open>parse_receipt\<close> wraps as the \<open>RuntimeError\<close> of an
  upstream failure, and the endpoint answers with status 500.
\<close>

theorem scan_receipt_returns_parsed_object_counterexample:
  "big_integer_reply = ustr ''{\"total\": '' @ replicate 5000 49 @ ustr ''}''
   \<and> fst (scan_receipt (stub_world (Inr (Some big_integer_reply))) stub_process stub_call png_upload)
     = Inl (HTTPException 500
         (ustr ''Failed to process receipt: Gemini API error: Exceeds the limit (4300 digits) for integer string conversion: value has 5000 digits; use sys.set_int_max_str_digits() to increase the limit''))"
proof -
  let ?w = "stub_world (Inr (Some big_integer_reply))"
  let ?svc = "\<lparr>client = api_key_of stub_process, model_name = ustr ''gemini-2.5-flash''\<rparr>"
  let ?digits = "Exn ValueError (ustr ''Exceeds the limit (4300 digits) for integer string conversion: value has 5000 digits; use sys.set_int_max_str_digits() to increase the limit'')"
  have ctp: "content_type png_upload = Some (ustr ''image/png'')"
    by (simp add: png_upload_def)
  have al: "ustr ''image/png'' \<in> set allowed_types"
    by (simp add: allowed_types_def)
  have key: "api_key_of stub_process = ustr ''secret''"
    by (simp add: api_key_of_def stub_process_def Settings_defaults_def) (simp add: ustr_def)
  have k: "genai_Client ?w (api_key_of stub_process) = None"
    unfolding key by (simp add: stub_world_simps ustr_def)
  have v: "pil_verify ?w (bytesio_id stub_call) (body png_upload) = None"
    by (simp add: stub_world_simps png_upload_def)
  have g: "generate_content ?w (client ?svc) (model_name ?svc) prompt (body png_upload)
             (ustr ''image/png'') = Inr (Some big_integer_reply)"
    by (simp add: stub_world_simps)
  have j: "json_loads ?w (strip_fences big_integer_reply) = Inl ?digits"
    by (simp add: strip_fences_big_integer_reply stub_world_simps stub_json_loads_big_integer)
  have pf: "fst (parse_receipt ?w ?svc stub_call (body png_upload) (ustr ''image/png''))
              = Inl (except_clauses ?digits)"
    by (simp add: parse_receipt_text [OF v g] j)
  have "http_error (except_clauses ?digits)
          = HTTPException 500
              (ustr ''Failed to process receipt: '' @ ustr ''Gemini API error: '' @ message ?digits)"
    by (simp add: except_clauses_def http_error_def isinstance_JSONDecodeError_def
          isinstance_ValueError_def isinstance_Exception_def)
  then have "fst (scan_receipt ?w stub_process stub_call png_upload)
     = Inl (HTTPException 500
         (ustr ''Failed to process receipt: '' @ ustr ''Gemini API error: '' @ message ?digits))"
    by (simp add: scan_receipt_parse_failed [OF ctp al k pf])
  then show ?thesis
    by (simp add: big_integer_reply_def) (simp add: ustr_def)
qed

theorem scan_receipt_returns_parsed_object_witness:
  "scan_receipt (stub_world (Inr (Some fenced_reply))) stub_process stub_call png_upload
     = (Inr (JObject [(ustr ''items'', JArray [])]),
        [ReadUpload, ClientInit (ustr ''secret''),
         GenerateContent (ustr ''secret'') (ustr ''gemini-2.5-flash'') prompt [137, 80, 78, 71]
           (ustr ''image/png'')])
   \<and> scan_receipt
        ((stub_world (Inr (Some fenced_reply)))\<lparr>json_loads := (\<lambda>s. Inr (JArray [JString s]))\<rparr>)
        stub_process stub_call png_upload
     = (Inr (JArray [JString (ustr ''{\"items\":[]}'')]),
        [ReadUpload, ClientInit (ustr ''secret''),
         GenerateContent (ustr ''secret'') (ustr ''gemini-2.5-flash'') prompt [137, 80, 78, 71]
           (ustr ''image/png'')])
   \<and> fst (parse_receipt (stub_world (Inr (Some fenced_reply)))
          \<lparr>client = ustr ''secret'', model_name = ustr ''gemini-2.5-flash''\<rparr>
          stub_call [137, 80, 78, 71] (ustr ''image/png''))
     = Inr (JObject [(ustr ''items'', JArray [])])
   \<and> fst (scan_receipt (stub_world (Inr (Some fenced_reply))) stub_process stub_call png_upload)
     = Inr (JObject [(ustr ''items'', JArray [])])"
proof -
  let ?w = "stub_world (Inr (Some fenced_reply))"
  let ?w' = "?w\<lparr>json_loads := (\<lambda>s. Inr (JArray [JString s]))\<rparr>"
  have ctp: "content_type png_upload = Some (ustr ''image/png'')"
    by (simp add: png_upload_def)
  have al: "ustr ''image/png'' \<in> set allowed_types"
    by (simp add: allowed_types_def)
  have key: "api_key_of stub_process = ustr ''secret''"
    by (simp add: api_key_of_def stub_process_def Settings_defaults_def) (simp add: ustr_def)
  have bd: "body png_upload = [137, 80, 78, 71]"
    by (simp add: png_upload_def)
  have k: "genai_Client ?w (api_key_of stub_process) = None"
    and k': "genai_Client ?w' (api_key_of stub_process) = None"
    unfolding key by (simp_all add: stub_world_simps ustr_def)
  have v: "pil_verify ?w (bytesio_id stub_call) (body png_upload) = None"
    and v': "pil_verify ?w' (bytesio_id stub_call) (body png_upload) = None"
    by (simp_all add: stub_world_simps png_upload_def)
  have g: "generate_content ?w (api_key_of stub_process) (ustr ''gemini-2.5-flash'')
             prompt (body png_upload) (ustr ''image/png'') = Inr (Some fenced_reply)"
    and g': "generate_content ?w' (api_key_of stub_process) (ustr ''gemini-2.5-flash'')
             prompt (body png_upload) (ustr ''image/png'') = Inr (Some fenced_reply)"
    by (simp_all add: stub_world_simps)
  have j: "json_loads ?w (strip_fences fenced_reply) = Inr (JObject [(ustr ''items'', JArray [])])"
    by (simp add: strip_fences_fenced_reply stub_world_simps stub_json_loads_items)
  have j': "json_loads ?w' (strip_fences fenced_reply) = Inr (JArray [JString (ustr ''{\"items\":[]}'')])"
    by (simp add: strip_fences_fenced_reply)
  note r = scan_receipt_returns_parsed_object
    [of png_upload "ustr ''image/png''" ?w stub_process stub_call fenced_reply,
     OF ctp al k, THEN conjunct1, rule_format, OF v g j]
  note r' = scan_receipt_returns_parsed_object
    [of png_upload "ustr ''image/png''" ?w' stub_process stub_call fenced_reply,
     OF ctp al k', THEN conjunct1, rule_format, OF v' g' j']
  have pr: "fst (parse_receipt ?w
                   \<lparr>client = api_key_of stub_process, model_name = ustr ''gemini-2.5-flash''\<rparr>
                   stub_call (body png_upload) (ustr ''image/png''))
              = Inr (JObject [(ustr ''items'', JArray [])])"
    using g j by (simp add: parse_receipt_text [OF v])
  note r2 = scan_receipt_returns_parsed_object
    [of png_upload "ustr ''image/png''" ?w stub_process stub_call _ _
        "JObject [(ustr ''items'', JArray [])]",
     OF ctp al k, THEN conjunct2, rule_format, OF pr]
  from r r' pr r2 show ?thesis
    unfolding key bd by simp
qed

section \<open>Process state and per-call state\<close>








text \<open>
  C10. The client is built with the configured key when that is not empty; with an empty
  configured key it is built with the value of \<^verbatim>\<open>GEMINI_API_KEY\<close> in the process
  environment, and with the empty key when the variable is not set.
\<close>

theorem GeminiService_api_key:
  "(gemini_api_key (settings p) = [] \<longrightarrow> os_environ p (ustr ''GEMINI_API_KEY'') = Some v \<longrightarrow>
      api_key_of p = v)
   \<and> (gemini_api_key (settings p) = [] \<longrightarrow> os_environ p (ustr ''GEMINI_API_KEY'') = None \<longrightarrow>
      api_key_of p = [])
   \<and> (gemini_api_key (settings p) \<noteq> [] \<longrightarrow> api_key_of p = gemini_api_key (settings p))
   \<and> snd (GeminiService_init w p) = [ClientInit (api_key_of p)]
   \<and> (genai_Client w (api_key_of p) = None \<longrightarrow>
      fst (GeminiService_init w p)
        = Inr \<lparr>client = api_key_of p, model_name = ustr ''gemini-2.5-flash''\<rparr>)"
proof -
  have keys:
    "gemini_api_key (settings p) = [] \<longrightarrow> os_environ p (ustr ''GEMINI_API_KEY'') = Some v \<longrightarrow>
      api_key_of p = v"
    "gemini_api_key (settings p) = [] \<longrightarrow> os_environ p (ustr ''GEMINI_API_KEY'') = None \<longrightarrow>
      api_key_of p = []"
    "gemini_api_key (settings p) \<noteq> [] \<longrightarrow> api_key_of p = gemini_api_key (settings p)"
    by (simp_all add: api_key_of_def)
  have init:
    "snd (GeminiService_init w p) = [ClientInit (api_key_of p)]"
    "genai_Client w (api_key_of p) = None \<longrightarrow>
      fst (GeminiService_init w p)
        = Inr \<lparr>client = api_key_of p, model_name = ustr ''gemini-2.5-flash''\<rparr>"
    by (simp_all add: GeminiService_init_def Let_def split: option.splits)
  from keys init show ?thesis by (intro conjI)
qed

theorem GeminiService_api_key_witness:
  "api_key_of stub_process = ustr ''secret''
   \<and> api_key_of (stub_process\<lparr>os_environ := Map.empty\<rparr>) = []
   \<and> api_key_of
        (stub_process\<lparr>settings := Settings_defaults\<lparr>gemini_api_key := ustr ''configured''\<rparr>\<rparr>)
       = ustr ''configured''
   \<and> GeminiService_init (stub_world (Inr None)) stub_process
       = (Inr \<lparr>client = ustr ''secret'', model_name = ustr ''gemini-2.5-flash''\<rparr>,
          [ClientInit (ustr ''secret'')])"
proof -
  let ?p2 = "stub_process\<lparr>os_environ := Map.empty\<rparr>"
  let ?p3 = "stub_process\<lparr>settings := Settings_defaults\<lparr>gemini_api_key := ustr ''configured''\<rparr>\<rparr>"
  have e1: "gemini_api_key (settings stub_process) = []"
    and e2: "gemini_api_key (settings ?p2) = []"
    by (simp_all add: stub_process_def Settings_defaults_def)
  have env1: "os_environ stub_process (ustr ''GEMINI_API_KEY'') = Some (ustr ''secret'')"
    by (simp add: stub_process_def ustr_def)
  have env2: "os_environ ?p2 (ustr ''GEMINI_API_KEY'') = None"
    by simp
  have ne: "gemini_api_key (settings ?p3) \<noteq> []"
    by (simp add: ustr_def)
  note a = GeminiService_api_key [of stub_process "ustr ''secret''", THEN conjunct1, rule_format,
    OF e1 env1]
  note b = GeminiService_api_key [of ?p2, THEN conjunct2, THEN conjunct1, rule_format, OF e2 env2]
  note c = GeminiService_api_key [of ?p3, THEN conjunct2, THEN conjunct2, THEN conjunct1,
    rule_format, OF ne]
  note d = GeminiService_api_key [of stub_process _ "stub_world (Inr None)", THEN conjunct2,
    THEN conjunct2, THEN conjunct2, THEN conjunct1]
  have k: "genai_Client (stub_world (Inr None)) (api_key_of stub_process) = None"
    unfolding a by (simp add: stub_world_simps ustr_def)
  note f = GeminiService_api_key [of stub_process _ "stub_world (Inr None)", THEN conjunct2,
    THEN conjunct2, THEN conjunct2, THEN conjunct2, rule_format, OF k]
  have "GeminiService_init (stub_world (Inr None)) stub_process
       = (Inr \<lparr>client = ustr ''secret'', model_name = ustr ''gemini-2.5-flash''\<rparr>,
          [ClientInit (ustr ''secret'')])"
    using d f unfolding a by (simp add: prod_eq_iff)
  with a b c show ?thesis by simp
qed

section \<open>The configuration loader\<close>

lemma Settings_init_absent:
  assumes "src (ustr ''gemini_api_key'') = None" and "src (ustr ''app_name'') = None"
    and "src (ustr ''debug'') = None" and "src (ustr ''port'') = None"
  shows "Settings_init as_bool as_int src = Some Settings_defaults"
  using assms by (simp add: Settings_init_def Settings_defaults_def)

lemma Settings_init_cong:
  assumes "src' (ustr ''gemini_api_key'') = src (ustr ''gemini_api_key'')"
    and "src' (ustr ''app_name'') = src (ustr ''app_name'')"
    and "src' (ustr ''debug'') = src (ustr ''debug'')"
    and "src' (ustr ''port'') = src (ustr ''port'')"
  shows "Settings_init as_bool as_int src' = Settings_init as_bool as_int src"
  unfolding Settings_init_def assms ..

lemma Settings_init_fields:
  assumes "Settings_init as_bool as_int src = Some s"
  shows "gemini_api_key s = (case src (ustr ''gemini_api_key'') of None \<Rightarrow> [] | Some v \<Rightarrow> v)"
    and "app_name s = (case src (ustr ''app_name'') of None \<Rightarrow> ustr ''Divvit Backend'' | Some v \<Rightarrow> v)"
    and "Some (debug s) = (case src (ustr ''debug'') of None \<Rightarrow> Some False | Some v \<Rightarrow> as_bool v)"
    and "Some (port s) = (case src (ustr ''port'') of None \<Rightarrow> Some 8080 | Some v \<Rightarrow> as_int v)"
  using assms
  by (auto simp: Settings_init_def Settings_defaults_def Let_def split: option.splits)

lemma Settings_init_fails:
  assumes "Settings_init as_bool as_int src = None"
  shows "(\<exists>v. src (ustr ''debug'') = Some v \<and> as_bool v = None)
       \<or> (\<exists>v. src (ustr ''port'') = Some v \<and> as_int v = None)"
  using assms
  by (auto simp: Settings_init_def Settings_defaults_def Let_def split: option.splits)

text \<open>
  C8. The declared defaults are the empty API key, the application name
  \<^verbatim>\<open>Divvit Backend\<close>, debug off and port 8080. The first access, on an empty cache, builds
  the settings from the sources and caches them. Every field that is set is read: the
  API key and the application name are the texts found, debug and port are what the
  conversions make of the texts found. Every field that is not set has its default; with
  none of the four set the settings are the defaults. Sources that agree on the four
  fields give the same settings, so every other variable is ignored. The constructor fails
  only on a debug or port text that its conversion refuses, never on an absent value.
  Every later access gives the cached settings and leaves the cache as it is, whatever
  the sources and conversions then are.
\<close>

theorem get_settings_defaults_and_cache:
  "Settings_defaults
     = \<lparr>gemini_api_key = [], app_name = ustr ''Divvit Backend'', debug = False, port = 8080\<rparr>
   \<and> (src (ustr ''gemini_api_key'') = None \<longrightarrow> src (ustr ''app_name'') = None \<longrightarrow>
      src (ustr ''debug'') = None \<longrightarrow> src (ustr ''port'') = None \<longrightarrow>
      get_settings as_bool as_int src None = (Some Settings_defaults, Some Settings_defaults))
   \<and> (src' (ustr ''gemini_api_key'') = src (ustr ''gemini_api_key'') \<longrightarrow>
      src' (ustr ''app_name'') = src (ustr ''app_name'') \<longrightarrow>
      src' (ustr ''debug'') = src (ustr ''debug'') \<longrightarrow>
      src' (ustr ''port'') = src (ustr ''port'') \<longrightarrow>
      get_settings as_bool as_int src' None = get_settings as_bool as_int src None)
   \<and> (get_settings as_bool as_int src None = (Some s, c) \<longrightarrow>
      c = Some s
      \<and> get_settings as_bool' as_int' src' c = (Some s, c)
      \<and> (src (ustr ''gemini_api_key'') = None \<longrightarrow> gemini_api_key s = [])
      \<and> (src (ustr ''app_name'') = None \<longrightarrow> app_name s = ustr ''Divvit Backend'')
      \<and> (src (ustr ''debug'') = None \<longrightarrow> debug s = False)
      \<and> (src (ustr ''port'') = None \<longrightarrow> port s = 8080)
      \<and> (src (ustr ''gemini_api_key'') = Some v \<longrightarrow> gemini_api_key s = v)
      \<and> (src (ustr ''app_name'') = Some v \<longrightarrow> app_name s = v)
      \<and> (src (ustr ''debug'') = Some v \<longrightarrow> as_bool v = Some (debug s))
      \<and> (src (ustr ''port'') = Some v \<longrightarrow> as_int v = Some (port s)))
   \<and> (fst (get_settings as_bool as_int src None) = None \<longrightarrow>
      (\<exists>v. src (ustr ''debug'') = Some v \<and> as_bool v = None)
      \<or> (\<exists>v. src (ustr ''port'') = Some v \<and> as_int v = None))
   \<and> ((case src (ustr ''debug'') of None \<Rightarrow> Some False | Some v \<Rightarrow> as_bool v) = Some d \<longrightarrow>
      (case src (ustr ''port'') of None \<Rightarrow> Some 8080 | Some v \<Rightarrow> as_int v) = Some n \<longrightarrow>
      fst (get_settings as_bool as_int src None)
        = Some \<lparr>gemini_api_key = (case src (ustr ''gemini_api_key'') of None \<Rightarrow> [] | Some v \<Rightarrow> v),
                app_name = (case src (ustr ''app_name'') of
                              None \<Rightarrow> ustr ''Divvit Backend'' | Some v \<Rightarrow> v),
                debug = d, port = n\<rparr>)"
proof -
  have c1: "Settings_defaults
     = \<lparr>gemini_api_key = [], app_name = ustr ''Divvit Backend'', debug = False, port = 8080\<rparr>"
    by (simp add: Settings_defaults_def)
  have c2: "src (ustr ''gemini_api_key'') = None \<longrightarrow> src (ustr ''app_name'') = None \<longrightarrow>
      src (ustr ''debug'') = None \<longrightarrow> src (ustr ''port'') = None \<longrightarrow>
      get_settings as_bool as_int src None = (Some Settings_defaults, Some Settings_defaults)"
    by (simp add: get_settings_def Settings_init_absent)
  have c3: "src' (ustr ''gemini_api_key'') = src (ustr ''gemini_api_key'') \<longrightarrow>
      src' (ustr ''app_name'') = src (ustr ''app_name'') \<longrightarrow>
      src' (ustr ''debug'') = src (ustr ''debug'') \<longrightarrow>
      src' (ustr ''port'') = src (ustr ''port'') \<longrightarrow>
      get_settings as_bool as_int src' None = get_settings as_bool as_int src None"
    using Settings_init_cong [of src' src as_bool as_int] by (simp add: get_settings_def)
  have c4: "c = Some s
      \<and> get_settings as_bool' as_int' src' c = (Some s, c)
      \<and> (src (ustr ''gemini_api_key'') = None \<longrightarrow> gemini_api_key s = [])
      \<and> (src (ustr ''app_name'') = None \<longrightarrow> app_name s = ustr ''Divvit Backend'')
      \<and> (src (ustr ''debug'') = None \<longrightarrow> debug s = False)
      \<and> (src (ustr ''port'') = None \<longrightarrow> port s = 8080)
      \<and> (src (ustr ''gemini_api_key'') = Some v \<longrightarrow> gemini_api_key s = v)
      \<and> (src (ustr ''app_name'') = Some v \<longrightarrow> app_name s = v)
      \<and> (src (ustr ''debug'') = Some v \<longrightarrow> as_bool v = Some (debug s))
      \<and> (src (ustr ''port'') = Some v \<longrightarrow> as_int v = Some (port s))"
    if first: "get_settings as_bool as_int src None = (Some s, c)"
  proof -
    from first have i: "Settings_init as_bool as_int src = Some s" and c: "c = Some s"
      by (auto simp: get_settings_def split: option.splits)
    have again: "get_settings as_bool' as_int' src' c = (Some s, c)"
      by (simp add: c get_settings_def)
    from c again Settings_init_fields [OF i] show ?thesis
      by (auto split: option.splits)
  qed
  have c5: "fst (get_settings as_bool as_int src None) = None \<longrightarrow>
      (\<exists>v. src (ustr ''debug'') = Some v \<and> as_bool v = None)
      \<or> (\<exists>v. src (ustr ''port'') = Some v \<and> as_int v = None)"
  proof
    assume "fst (get_settings as_bool as_int src None) = None"
    then have "Settings_init as_bool as_int src = None"
      by (simp add: get_settings_def split: option.splits)
    then show "(\<exists>v. src (ustr ''debug'') = Some v \<and> as_bool v = None)
      \<or> (\<exists>v. src (ustr ''port'') = Some v \<and> as_int v = None)"
      by (rule Settings_init_fails)
  qed
  have c6: "(case src (ustr ''debug'') of None \<Rightarrow> Some False | Some v \<Rightarrow> as_bool v) = Some d \<longrightarrow>
      (case src (ustr ''port'') of None \<Rightarrow> Some 8080 | Some v \<Rightarrow> as_int v) = Some n \<longrightarrow>
      fst (get_settings as_bool as_int src None)
        = Some \<lparr>gemini_api_key = (case src (ustr ''gemini_api_key'') of None \<Rightarrow> [] | Some v \<Rightarrow> v),
                app_name = (case src (ustr ''app_name'') of
                              None \<Rightarrow> ustr ''Divvit Backend'' | Some v \<Rightarrow> v),
                debug = d, port = n\<rparr>"
    by (auto simp: get_settings_def Settings_init_def Settings_defaults_def Let_def
             split: option.splits)
  from c1 c2 c3 c4 c5 c6 show ?thesis by blast
qed

theorem get_settings_defaults_and_cache_witness:
  "get_settings stub_as_bool stub_as_int Map.empty None
     = (Some Settings_defaults, Some Settings_defaults)
   \<and> get_settings stub_as_bool stub_as_int stub_env None
     = (Some \<lparr>gemini_api_key = ustr ''secret'', app_name = ustr ''Divvit Backend'',
              debug = True, port = 9090\<rparr>,
        Some \<lparr>gemini_api_key = ustr ''secret'', app_name = ustr ''Divvit Backend'',
              debug = True, port = 9090\<rparr>)
   \<and> get_settings stub_as_bool stub_as_int
        [ustr ''gemini_api_key'' \<mapsto> ustr ''secret'', ustr ''debug'' \<mapsto> ustr ''true'',
         ustr ''port'' \<mapsto> ustr ''9090''] None
     = get_settings stub_as_bool stub_as_int stub_env None
   \<and> get_settings (\<lambda>s. None) (\<lambda>s. None) [ustr ''port'' \<mapsto> ustr ''80'', ustr ''debug'' \<mapsto> ustr ''x'']
        (Some \<lparr>gemini_api_key = ustr ''secret'', app_name = ustr ''Divvit Backend'',
               debug = True, port = 9090\<rparr>)
     = (Some \<lparr>gemini_api_key = ustr ''secret'', app_name = ustr ''Divvit Backend'',
              debug = True, port = 9090\<rparr>,
        Some \<lparr>gemini_api_key = ustr ''secret'', app_name = ustr ''Divvit Backend'',
              debug = True, port = 9090\<rparr>)
   \<and> fst (get_settings stub_as_bool stub_as_int [ustr ''port'' \<mapsto> ustr ''eighty''] None) = None
   \<and> ((\<exists>v. [ustr ''port'' \<mapsto> ustr ''eighty''] (ustr ''debug'') = Some v \<and> stub_as_bool v = None)
      \<or> (\<exists>v. [ustr ''port'' \<mapsto> ustr ''eighty''] (ustr ''port'') = Some v \<and> stub_as_int v = None))"
proof -
  let ?s = "\<lparr>gemini_api_key = ustr ''secret'', app_name = ustr ''Divvit Backend'',
             debug = True, port = 9090\<rparr>"
  let ?set_only = "[ustr ''gemini_api_key'' \<mapsto> ustr ''secret'', ustr ''debug'' \<mapsto> ustr ''true'',
                    ustr ''port'' \<mapsto> ustr ''9090'']"
  let ?later = "[ustr ''port'' \<mapsto> ustr ''80'', ustr ''debug'' \<mapsto> ustr ''x'']"
  let ?eighty = "[ustr ''port'' \<mapsto> ustr ''eighty'']"
  have env:
    "stub_env (ustr ''gemini_api_key'') = Some (ustr ''secret'')"
    "stub_env (ustr ''app_name'') = None"
    "stub_env (ustr ''debug'') = Some (ustr ''true'')"
    "stub_env (ustr ''port'') = Some (ustr ''9090'')"
    by (simp_all add: stub_env_def ustr_def)
  have conv: "stub_as_bool (ustr ''true'') = Some True" "stub_as_int (ustr ''9090'') = Some 9090"
    by (simp_all add: stub_as_bool_def stub_as_int_def)
  have e: "Map.empty (ustr ''gemini_api_key'') = (None :: str option)"
    "Map.empty (ustr ''app_name'') = (None :: str option)"
    "Map.empty (ustr ''debug'') = (None :: str option)"
    "Map.empty (ustr ''port'') = (None :: str option)"
    by simp_all
  note a = get_settings_defaults_and_cache
    [of Map.empty stub_as_bool stub_as_int, THEN conjunct2, THEN conjunct1, rule_format, OF e]
  have agree: "?set_only (ustr ''gemini_api_key'') = stub_env (ustr ''gemini_api_key'')"
    "?set_only (ustr ''app_name'') = stub_env (ustr ''app_name'')"
    "?set_only (ustr ''debug'') = stub_env (ustr ''debug'')"
    "?set_only (ustr ''port'') = stub_env (ustr ''port'')"
    unfolding env by (simp_all add: ustr_def)
  note b = get_settings_defaults_and_cache
    [of stub_env stub_as_bool stub_as_int ?set_only, THEN conjunct2, THEN conjunct2,
     THEN conjunct1, rule_format, OF agree]
  have dv: "(case stub_env (ustr ''debug'') of None \<Rightarrow> Some False | Some v \<Rightarrow> stub_as_bool v)
              = Some True"
    and pv: "(case stub_env (ustr ''port'') of None \<Rightarrow> Some 8080 | Some v \<Rightarrow> stub_as_int v)
              = Some 9090"
    by (simp_all add: env conv)
  note built = get_settings_defaults_and_cache
    [of stub_env stub_as_bool stub_as_int _ _ _ _ _ _ True 9090, THEN conjunct2, THEN conjunct2,
     THEN conjunct2, THEN conjunct2, THEN conjunct2, rule_format, OF dv pv]
  have first: "get_settings stub_as_bool stub_as_int stub_env None = (Some ?s, Some ?s)"
    using built by (simp add: env get_settings_def split: option.splits)
  note c = get_settings_defaults_and_cache
    [of stub_env stub_as_bool stub_as_int ?later ?s "Some ?s" "\<lambda>s. None" "\<lambda>s. None"
        "ustr ''secret''",
     THEN conjunct2, THEN conjunct2, THEN conjunct2, THEN conjunct1, rule_format, OF first]
  note read_key = c [THEN conjunct2, THEN conjunct2, THEN conjunct2, THEN conjunct2,
    THEN conjunct2, THEN conjunct2, THEN conjunct1, rule_format, OF env(1)]
  have bad: "fst (get_settings stub_as_bool stub_as_int ?eighty None) = None"
    by (simp add: get_settings_def Settings_init_def stub_as_int_def Settings_defaults_def)
       (simp add: ustr_def)
  note d = get_settings_defaults_and_cache
    [of ?eighty stub_as_bool stub_as_int, THEN conjunct2, THEN conjunct2, THEN conjunct2,
     THEN conjunct2, THEN conjunct1, rule_format, OF bad]
  from a b first c read_key bad have "get_settings stub_as_bool stub_as_int Map.empty None
     = (Some Settings_defaults, Some Settings_defaults)
   \<and> get_settings stub_as_bool stub_as_int stub_env None = (Some ?s, Some ?s)
   \<and> get_settings stub_as_bool stub_as_int ?set_only None
     = get_settings stub_as_bool stub_as_int stub_env None
   \<and> get_settings (\<lambda>s. None) (\<lambda>s. None) ?later (Some ?s) = (Some ?s, Some ?s)
   \<and> fst (get_settings stub_as_bool stub_as_int ?eighty None) = None"
    by simp
  with d show ?thesis
    by (intro conjI) (elim conjE, assumption)+
qed

end
